theory Spec2Isabelle
  imports Main
begin

section \<open>JavaScript values and errors\<close>

text \<open>
  The values that \<^verbatim>\<open>JSON.parse\<close> and property access produce. A number is kept as the
  text JavaScript prints for it (\<^verbatim>\<open>String(n)\<close>): the service only ever tests a number
  for truthiness or coerces it to a string, so \<open>JNum ''0''\<close> stands for both zeros,
  \<open>JNum ''123''\<close> for 123, \<open>JNum ''1e-7''\<close> for 0.0000001. An object is the list of its
  own properties.
\<close>

datatype js_value =
    JUndefined
  | JNull
  | JBool bool
  | JNum string
  | JStr string
  | JArr "js_value list"
  | JObj "(string \<times> js_value) list"

text \<open>A thrown value: an \<^verbatim>\<open>Error\<close> object with its \<^verbatim>\<open>name\<close> and \<^verbatim>\<open>message\<close>.\<close>

datatype js_error = JsError (error_name: string) (error_message: string)

definition Error :: "string \<Rightarrow> js_error" where
  "Error msg = JsError ''Error'' msg"

definition TypeError :: "string \<Rightarrow> js_error" where
  "TypeError msg = JsError ''TypeError'' msg"

text \<open>\<^verbatim>\<open>!x\<close> is \<open>\<not> ToBoolean x\<close>.\<close>

fun ToBoolean :: "js_value \<Rightarrow> bool" where
  "ToBoolean JUndefined = False"
| "ToBoolean JNull = False"
| "ToBoolean (JBool b) = b"
| "ToBoolean (JNum s) = (s \<noteq> ''0'' \<and> s \<noteq> ''NaN'')"
| "ToBoolean (JStr s) = (s \<noteq> [])"
| "ToBoolean (JArr xs) = True"
| "ToBoolean (JObj kvs) = True"

fun typeof :: "js_value \<Rightarrow> string" where
  "typeof JUndefined = ''undefined''"
| "typeof JNull = ''object''"
| "typeof (JBool b) = ''boolean''"
| "typeof (JNum s) = ''number''"
| "typeof (JStr s) = ''string''"
| "typeof (JArr xs) = ''object''"
| "typeof (JObj kvs) = ''object''"

text \<open>
  \<^verbatim>\<open>v[k]\<close> for the property names the service reads (\<^verbatim>\<open>tenant_id\<close>, \<^verbatim>\<open>tenant_slug\<close>,
  \<^verbatim>\<open>timestamp\<close>), none of which a prototype defines: an own property of an object, and
  \<^verbatim>\<open>undefined\<close> on every other value. On \<^verbatim>\<open>null\<close> and \<^verbatim>\<open>undefined\<close> the access throws
  a TypeError; \<open>nullish\<close> is the test the callers make first.
\<close>

fun nullish :: "js_value \<Rightarrow> bool" where
  "nullish JUndefined = True"
| "nullish JNull = True"
| "nullish v = False"

fun field :: "js_value \<Rightarrow> string \<Rightarrow> js_value" where
  "field (JObj kvs) k = (case map_of kvs k of Some v \<Rightarrow> v | None \<Rightarrow> JUndefined)"
| "field v k = JUndefined"

text \<open>
  String coercion, as \<^verbatim>\<open>RegExp.prototype.test\<close> and template literals apply it. An array
  joins its elements with commas, \<^verbatim>\<open>null\<close> and \<^verbatim>\<open>undefined\<close> elements giving the empty
  string. A parsed object has no callable property: with an own \<^verbatim>\<open>toString\<close> property the
  conversion finds nothing to call that returns a primitive and throws a TypeError,
  without one it inherits \<^verbatim>\<open>Object.prototype.toString\<close>.
\<close>

fun ToString :: "js_value \<Rightarrow> js_error + string"
  and join_elements :: "js_value list \<Rightarrow> js_error + string" where
  "ToString JUndefined = Inr ''undefined''"
| "ToString JNull = Inr ''null''"
| "ToString (JBool b) = Inr (if b then ''true'' else ''false'')"
| "ToString (JNum s) = Inr s"
| "ToString (JStr s) = Inr s"
| "ToString (JArr xs) = join_elements xs"
| "ToString (JObj kvs) =
     (if map_of kvs ''toString'' = None then Inr ''[object Object]''
      else Inl (TypeError ''Cannot convert object to primitive value''))"
| "join_elements [] = Inr []"
| "join_elements (x # xs) =
     (case (if nullish x then Inr [] else ToString x) of
        Inl e \<Rightarrow> Inl e
      | Inr s \<Rightarrow>
          (if xs = [] then Inr s
           else (case join_elements xs of
                   Inl e \<Rightarrow> Inl e
                 | Inr r \<Rightarrow> Inr (s @ '','' @ r))))"

section \<open>Message validation (SQSService.validateMessage)\<close>

text \<open>
  \<^verbatim>\<open>/^[0-9a-f]{8}-[0-9a-f]{4}-[0-9a-f]{4}-[0-9a-f]{4}-[0-9a-f]{12}$/i\<close>, read left to
  right: \<open>hex_run n\<close> consumes exactly \<open>n\<close> hexadecimal digits of either case, \<open>dash\<close> one
  hyphen, and the match is anchored at both ends.
\<close>

definition hex_digit :: "char \<Rightarrow> bool" where
  "hex_digit c = (c \<in> set ''0123456789abcdefABCDEF'')"

fun hex_run :: "nat \<Rightarrow> string \<Rightarrow> string option" where
  "hex_run 0 s = Some s"
| "hex_run (Suc n) [] = None"
| "hex_run (Suc n) (c # s) = (if hex_digit c then hex_run n s else None)"

fun dash :: "string \<Rightarrow> string option" where
  "dash [] = None"
| "dash (c # s) = (if c = CHR ''-'' then Some s else None)"

definition uuidRegex_test :: "string \<Rightarrow> bool" where
  "uuidRegex_test s =
     (Option.bind (Option.bind (Option.bind (Option.bind (Option.bind (Option.bind
        (Option.bind (Option.bind (hex_run 8 s) dash) (hex_run 4)) dash) (hex_run 4)) dash)
        (hex_run 4)) dash) (hex_run 12) = Some [])"

text \<open>\<^verbatim>\<open>/^[a-z0-9][a-z0-9-]{1,62}[a-z0-9]$/\<close>.\<close>

definition lower_alnum :: "char \<Rightarrow> bool" where
  "lower_alnum c = (c \<in> set ''abcdefghijklmnopqrstuvwxyz0123456789'')"

definition slug_char :: "char \<Rightarrow> bool" where
  "slug_char c = (lower_alnum c \<or> c = CHR ''-'')"

definition slugRegex_test :: "string \<Rightarrow> bool" where
  "slugRegex_test s =
     (case s of
        [] \<Rightarrow> False
      | c # r \<Rightarrow>
          lower_alnum c \<and> r \<noteq> [] \<and> lower_alnum (last r) \<and>
          list_all slug_char (butlast r) \<and>
          1 \<le> length (butlast r) \<and> length (butlast r) \<le> 62)"

definition requiredFields :: "string list" where
  "requiredFields = [''tenant_id'', ''tenant_slug'', ''timestamp'']"

text \<open>
  \<open>validateMessage\<close> returns a boolean, or throws when a regular expression's string
  coercion of the field throws. Logger calls have no effect on the result and are left
  out, here and below.
\<close>

definition validateMessage :: "js_value \<Rightarrow> js_error + bool" where
  "validateMessage messageBody =
     (if \<not> ToBoolean messageBody \<or> typeof messageBody \<noteq> ''object'' then Inr False
      else if list_ex (\<lambda>f. \<not> ToBoolean (field messageBody f)) requiredFields then Inr False
      else (case ToString (field messageBody ''tenant_id'') of
              Inl e \<Rightarrow> Inl e
            | Inr tenant_id \<Rightarrow>
                if \<not> uuidRegex_test tenant_id then Inr False
                else (case ToString (field messageBody ''tenant_slug'') of
                        Inl e \<Rightarrow> Inl e
                      | Inr tenant_slug \<Rightarrow>
                          if \<not> slugRegex_test tenant_slug then Inr False
                          else Inr True)))"

section \<open>The environment: record store, provider and queue\<close>

text \<open>
  A row of \<^verbatim>\<open>public.accreda_tenants\<close> with the columns the service selects and writes
  (\<^verbatim>\<open>updated_at\<close>, a wall-clock value, is left out); \<open>row_id\<close> is the column
  \<^verbatim>\<open>id\<close>. The two OpenSearch columns are nullable.
\<close>

record tenant =
  row_id :: string
  slug :: string
  name :: string
  status :: string
  opensearch_arn :: "string option"
  opensearch_status :: "string option"

text \<open>
  An entry of \<^verbatim>\<open>collectionDetails\<close> in the provider's answer; \<open>collection_status\<close> is
  its field \<^verbatim>\<open>status\<close>.
\<close>

record collection_detail =
  arn :: string
  collectionEndpoint :: string
  collection_status :: string

record aws_response =
  createCollectionDetail :: "collection_detail option"
  collectionDetails :: "collection_detail list option"

text \<open>
  The commands sent to OpenSearch Serverless, with the fields the source fills in. A policy
  document is kept as the value handed to \<^verbatim>\<open>JSON.stringify\<close>.
\<close>

datatype aws_command =
    CreateSecurityPolicyCommand string string js_value string
  | CreateAccessPolicyCommand string string js_value string
  | CreateCollectionCommand string string string "(string \<times> js_value) list"
  | BatchGetCollectionCommand "string list"

text \<open>
  The statements sent to PostgreSQL, with their bound parameters: \<open>Connect\<close> is taking a
  client from the pool, \<open>Select id\<close> the query of \<open>getTenant\<close>,
  \<open>UpdateOpenSearch arn status id\<close> the update of \<open>updateTenantOpenSearch\<close> and
  \<open>UpdateStatus status id\<close> the one of \<open>markTenantOpenSearchFailed\<close>.
\<close>

datatype db_stmt =
    Connect
  | Select js_value
  | Begin
  | UpdateOpenSearch string string js_value
  | Commit
  | Rollback
  | UpdateStatus string js_value

text \<open>
  A delivered message. \<open>Body\<close> is the body text, represented by what
  \<^verbatim>\<open>JSON.parse(message.Body)\<close> does with it: \<open>Inl e\<close> when it throws \<open>e\<close> (a SyntaxError),
  \<open>Inr v\<close> when it returns \<open>v\<close>.
\<close>

record sqs_message =
  MessageId :: string
  ReceiptHandle :: string
  Body :: "js_error + js_value"

datatype sqs_call = ReceiveMessage | DeleteMessage string

text \<open>
  Everything outside the process. The table is indexed by the value bound to
  \<^verbatim>\<open>WHERE id = $1\<close>; \<open>txn\<close> is the working copy of a transaction that is open on the
  checked-out client. Each external call may throw: \<open>db_fault\<close>, \<open>aws_reply\<close>,
  \<open>sqs_receive\<close> and \<open>sqs_delete_fault\<close> give, for the n-th call to the service (counted
  by the length of its log), what that call does. The logs record every call issued,
  \<open>deleted\<close> the receipt handles the queue has removed, \<open>slept_ms\<close> the time spent in
  \<^verbatim>\<open>setTimeout\<close> waits.
\<close>

record world =
  tenants :: "js_value \<rightharpoonup> tenant"
  txn :: "(js_value \<rightharpoonup> tenant) option"
  db_fault :: "nat \<Rightarrow> js_error option"
  db_log :: "db_stmt list"
  aws_reply :: "nat \<Rightarrow> aws_command \<Rightarrow> js_error + aws_response"
  aws_log :: "aws_command list"
  slept_ms :: nat
  sqs_receive :: "nat \<Rightarrow> js_error + sqs_message list"
  sqs_delete_fault :: "nat \<Rightarrow> js_error option"
  sqs_log :: "sqs_call list"
  deleted :: "string set"

text \<open>
  An asynchronous function: it runs on the world and either throws or returns, leaving
  the world changed. \<open>io_catch\<close> is \<^verbatim>\<open>try { ... } catch (error) { ... }\<close>.
\<close>

type_synonym 'a io = "world \<Rightarrow> (js_error + 'a) \<times> world"

definition io_return :: "'a \<Rightarrow> 'a io" where
  "io_return x w = (Inr x, w)"

definition io_throw :: "js_error \<Rightarrow> 'a io" where
  "io_throw e w = (Inl e, w)"

definition io_bind :: "'a io \<Rightarrow> ('a \<Rightarrow> 'b io) \<Rightarrow> 'b io" where
  "io_bind m f w = (case m w of (Inl e, w') \<Rightarrow> (Inl e, w') | (Inr x, w') \<Rightarrow> f x w')"

definition io_catch :: "'a io \<Rightarrow> (js_error \<Rightarrow> 'a io) \<Rightarrow> 'a io" where
  "io_catch m h w = (case m w of (Inl e, w') \<Rightarrow> h e w' | (Inr x, w') \<Rightarrow> (Inr x, w'))"

definition io_lift :: "js_error + 'a \<Rightarrow> 'a io" where
  "io_lift r w = (r, w)"

definition sleep :: "nat \<Rightarrow> unit io" where
  "sleep ms w = (Inr (), w\<lparr>slept_ms := slept_ms w + ms\<rparr>)"

section \<open>config/database: query and getClient\<close>

text \<open>
  What a statement does to a table, and the rows it selects or touches. An update touches
  the row the key selects, if there is one; the columns its \<^verbatim>\<open>RETURNING\<close> list keeps of
  that row are taken by the caller (\<open>returning\<close> below).
\<close>

fun run_stmt :: "db_stmt \<Rightarrow> (js_value \<rightharpoonup> tenant) \<Rightarrow> tenant list \<times> (js_value \<rightharpoonup> tenant)" where
  "run_stmt (Select k) tab = ((case tab k of None \<Rightarrow> [] | Some t \<Rightarrow> [t]), tab)"
| "run_stmt (UpdateOpenSearch a st k) tab =
     (case tab k of
        None \<Rightarrow> ([], tab)
      | Some t \<Rightarrow>
          (let t' = t\<lparr>opensearch_arn := Some a, opensearch_status := Some st\<rparr>
           in ([t'], tab(k \<mapsto> t'))))"
| "run_stmt (UpdateStatus st k) tab =
     (case tab k of
        None \<Rightarrow> ([], tab)
      | Some t \<Rightarrow>
          (let t' = t\<lparr>opensearch_status := Some st\<rparr>
           in ([t'], tab(k \<mapsto> t'))))"
| "run_stmt s tab = ([], tab)"

text \<open>
  \<open>query\<close> takes a connection of its own from the pool, runs one statement in
  autocommit and releases the connection. A fault stands for \<^verbatim>\<open>pool.connect\<close> or
  \<^verbatim>\<open>client.query\<close> throwing (or the pool not being initialized): the statement has no
  effect then.
\<close>

definition query :: "db_stmt \<Rightarrow> tenant list io" where
  "query s w =
     (let w1 = w\<lparr>db_log := db_log w @ [s]\<rparr> in
      case db_fault w (length (db_log w)) of
        Some e \<Rightarrow> (Inl e, w1)
      | None \<Rightarrow>
          (case run_stmt s (tenants w1) of
             (rows, tab) \<Rightarrow> (Inr rows, w1\<lparr>tenants := tab\<rparr>)))"

definition getClient :: "unit io" where
  "getClient w =
     (let w1 = w\<lparr>db_log := db_log w @ [Connect]\<rparr> in
      case db_fault w (length (db_log w)) of
        Some e \<Rightarrow> (Inl e, w1)
      | None \<Rightarrow> (Inr (), w1))"

text \<open>
  \<^verbatim>\<open>client.query\<close> on the checked-out client. \<open>BEGIN\<close> opens a working copy of the table,
  statements run on the working copy while one is open, \<open>COMMIT\<close> makes it the table and
  \<open>ROLLBACK\<close> drops it. A statement that throws has had no effect.
\<close>

definition client_exec :: "db_stmt \<Rightarrow> world \<Rightarrow> tenant list \<times> world" where
  "client_exec s w =
     (case s of
        Begin \<Rightarrow> ([], w\<lparr>txn := Some (tenants w)\<rparr>)
      | Commit \<Rightarrow>
          (case txn w of
             Some tab \<Rightarrow> ([], w\<lparr>tenants := tab, txn := None\<rparr>)
           | None \<Rightarrow> ([], w))
      | Rollback \<Rightarrow> ([], w\<lparr>txn := None\<rparr>)
      | _ \<Rightarrow>
          (case txn w of
             Some tab \<Rightarrow>
               (case run_stmt s tab of (rows, tab') \<Rightarrow> (rows, w\<lparr>txn := Some tab'\<rparr>))
           | None \<Rightarrow>
               (case run_stmt s (tenants w) of (rows, tab') \<Rightarrow> (rows, w\<lparr>tenants := tab'\<rparr>))))"

definition client_query :: "db_stmt \<Rightarrow> tenant list io" where
  "client_query s w =
     (let w1 = w\<lparr>db_log := db_log w @ [s]\<rparr> in
      case db_fault w (length (db_log w)) of
        Some e \<Rightarrow> (Inl e, w1)
      | None \<Rightarrow> (case client_exec s w1 of (rows, w2) \<Rightarrow> (Inr rows, w2)))"

text \<open>
  \<^verbatim>\<open>client.release()\<close>. A transaction still open on the client at this point was never
  committed; the model drops its working copy and does not follow it further.
\<close>

definition release :: "world \<Rightarrow> world" where
  "release w = w\<lparr>txn := None\<rparr>"

definition io_finally :: "'a io \<Rightarrow> (world \<Rightarrow> world) \<Rightarrow> 'a io" where
  "io_finally m fin w = (case m w of (r, w') \<Rightarrow> (r, fin w'))"

section \<open>DatabaseService\<close>

definition getTenant :: "js_value \<Rightarrow> tenant option io" where
  "getTenant tenantId =
     io_catch
       (io_bind (query (Select tenantId)) (\<lambda>rows.
          case rows of
            [] \<Rightarrow> io_return None
          | t # _ \<Rightarrow> io_return (Some t)))
       (\<lambda>error. io_throw error)"

record validation =
  isValid :: bool
  message :: string

definition validateTenantForProvisioning :: "tenant option \<Rightarrow> validation" where
  "validateTenantForProvisioning tenant =
     (case tenant of
        None \<Rightarrow> \<lparr>isValid = False, message = ''Tenant not found''\<rparr>
      | Some t \<Rightarrow>
          if status t \<noteq> ''active'' then
            \<lparr>isValid = False,
             message = ''Tenant status is '' @ [CHR 0x27] @ status t @ [CHR 0x27] @
                       '', expected '' @ [CHR 0x27] @ ''active'' @ [CHR 0x27]\<rparr>
          else if opensearch_arn t \<noteq> None \<and> opensearch_arn t \<noteq> Some [] then
            \<lparr>isValid = False, message = ''Tenant already has an OpenSearch collection''\<rparr>
          else if opensearch_status t = Some ''ready'' then
            \<lparr>isValid = False, message = ''Tenant OpenSearch status is already ready''\<rparr>
          else \<lparr>isValid = True, message = ''Tenant is valid for provisioning''\<rparr>)"

text \<open>
  The row that the update returns: the columns of its \<^verbatim>\<open>RETURNING\<close> list, which has no
  \<^verbatim>\<open>status\<close> (and \<^verbatim>\<open>updated_at\<close>, left out as above).
\<close>

record updated_tenant =
  updated_id :: string
  updated_slug :: string
  updated_name :: string
  updated_opensearch_arn :: "string option"
  updated_opensearch_status :: "string option"

definition returning :: "tenant \<Rightarrow> updated_tenant" where
  "returning t =
     \<lparr>updated_id = row_id t, updated_slug = slug t, updated_name = name t,
      updated_opensearch_arn = opensearch_arn t,
      updated_opensearch_status = opensearch_status t\<rparr>"

text \<open>
  \<open>updateTenantOpenSearch\<close>: the client is taken before the \<^verbatim>\<open>try\<close>; the \<^verbatim>\<open>catch\<close> rolls
  back (a rollback that throws replaces the error) and rethrows; the \<^verbatim>\<open>finally\<close>
  releases the client.
\<close>

definition updateTenantOpenSearch ::
  "js_value \<Rightarrow> string \<Rightarrow> string \<Rightarrow> updated_tenant io" where
  "updateTenantOpenSearch tenantId opensearchArn st =
     io_bind getClient (\<lambda>_.
       io_finally
         (io_catch
            (io_bind (client_query Begin) (\<lambda>_.
             io_bind (client_query (UpdateOpenSearch opensearchArn st tenantId)) (\<lambda>rows.
               case rows of
                 [] \<Rightarrow>
                   io_bind (client_query Rollback) (\<lambda>_.
                     io_throw (Error ''Tenant not found or update failed''))
               | updatedTenant # _ \<Rightarrow>
                   io_bind (client_query Commit) (\<lambda>_. io_return (returning updatedTenant)))))
            (\<lambda>error. io_bind (client_query Rollback) (\<lambda>_. io_throw error)))
         release)"

definition markTenantOpenSearchFailed :: "js_value \<Rightarrow> string \<Rightarrow> unit io" where
  "markTenantOpenSearchFailed tenantId errorMessage =
     io_catch
       (io_bind (query (UpdateStatus ''failed'' tenantId)) (\<lambda>_. io_return ()))
       (\<lambda>error. io_return ())"

section \<open>OpenSearchService\<close>

text \<open>\<^verbatim>\<open>this.client.send(command)\<close>: the provider's answer to the n-th command sent.\<close>

definition send :: "aws_command \<Rightarrow> aws_response io" where
  "send command w =
     (aws_reply w (length (aws_log w)) command, w\<lparr>aws_log := aws_log w @ [command]\<rparr>)"

text \<open>The TypeError of reading \<^verbatim>\<open>.status\<close> of a missing \<^verbatim>\<open>createCollectionDetail\<close>.\<close>

definition missingDetailError :: js_error where
  "missingDetailError =
     TypeError (''Cannot read properties of undefined (reading '' @ [CHR 0x27] @ ''status'' @
                [CHR 0x27] @ '')'')"

definition getCollectionName :: "string \<Rightarrow> string" where
  "getCollectionName tenantSlug = ''accreda-'' @ tenantSlug"

definition collectionRule :: "string \<Rightarrow> string \<Rightarrow> js_value" where
  "collectionRule resourceType collectionName =
     JObj [(''ResourceType'', JStr resourceType),
           (''Resource'', JArr [JStr (''collection/'' @ collectionName)])]"

definition encryptionPolicyCommand :: "string \<Rightarrow> aws_command" where
  "encryptionPolicyCommand collectionName =
     CreateSecurityPolicyCommand (collectionName @ ''-encryption'') ''encryption''
       (JObj [(''Rules'', JArr [collectionRule ''collection'' collectionName]),
              (''AWSOwnedKey'', JBool True)])
       (''Encryption policy for tenant collection '' @ collectionName)"

definition networkPolicyCommand :: "string \<Rightarrow> aws_command" where
  "networkPolicyCommand collectionName =
     CreateSecurityPolicyCommand (collectionName @ ''-network'') ''network''
       (JArr [JObj [(''Rules'', JArr [collectionRule ''collection'' collectionName,
                                      collectionRule ''dashboard'' collectionName]),
                    (''AllowFromPublic'', JBool True)]])
       (''Network policy for tenant collection '' @ collectionName)"

definition accountId :: string where
  "accountId = ''625867133463''"

definition dataAccessPolicyCommand :: "string \<Rightarrow> string \<Rightarrow> aws_command" where
  "dataAccessPolicyCommand collectionName tenantIdText =
     CreateAccessPolicyCommand (collectionName @ ''-access'') ''data''
       (JArr [JObj
          [(''Rules'', JArr
              [JObj [(''ResourceType'', JStr ''collection''),
                     (''Resource'', JArr [JStr (''collection/'' @ collectionName)]),
                     (''Permission'', JArr [JStr ''aoss:CreateCollectionItems'',
                                            JStr ''aoss:DeleteCollectionItems'',
                                            JStr ''aoss:UpdateCollectionItems'',
                                            JStr ''aoss:DescribeCollectionItems''])],
               JObj [(''ResourceType'', JStr ''index''),
                     (''Resource'', JArr [JStr (''index/'' @ collectionName @ ''/*'')]),
                     (''Permission'', JArr [JStr ''aoss:CreateIndex'',
                                            JStr ''aoss:DeleteIndex'',
                                            JStr ''aoss:UpdateIndex'',
                                            JStr ''aoss:DescribeIndex'',
                                            JStr ''aoss:ReadDocument'',
                                            JStr ''aoss:WriteDocument''])]]),
           (''Principal'', JArr [JStr (''arn:aws:iam::'' @ accountId @ '':root'')])]])
       (''Data access policy for tenant '' @ tenantIdText @ '' collection '' @ collectionName)"

definition createCollectionCommand :: "string \<Rightarrow> js_value \<Rightarrow> string \<Rightarrow> string \<Rightarrow> aws_command" where
  "createCollectionCommand collectionName tenantId tenantIdText tenantSlug =
     CreateCollectionCommand collectionName ''SEARCH''
       (''OpenSearch collection for tenant '' @ tenantSlug @ '' ('' @ tenantIdText @
        '') - configured for Bedrock knowledge base'')
       [(''TenantId'', tenantId),
        (''TenantSlug'', JStr tenantSlug),
        (''Service'', JStr ''Accreda''),
        (''ManagedBy'', JStr ''tenant-opensearch-service''),
        (''BedrockCompatible'', JStr ''true'')]"

definition batchGetCollectionCommand :: "string \<Rightarrow> aws_command" where
  "batchGetCollectionCommand collectionName = BatchGetCollectionCommand [collectionName]"

text \<open>The three policy steps: a \<^verbatim>\<open>ConflictException\<close> is logged, anything else rethrown.\<close>

definition createEncryptionPolicy :: "string \<Rightarrow> unit io" where
  "createEncryptionPolicy collectionName =
     io_catch
       (io_bind (send (encryptionPolicyCommand collectionName)) (\<lambda>_. io_return ()))
       (\<lambda>error. if error_name error = ''ConflictException'' then io_return ()
                 else io_throw error)"

definition createNetworkPolicy :: "string \<Rightarrow> unit io" where
  "createNetworkPolicy collectionName =
     io_catch
       (io_bind (send (networkPolicyCommand collectionName)) (\<lambda>response. io_return ()))
       (\<lambda>error. if error_name error = ''ConflictException'' then io_return ()
                 else io_throw error)"

text \<open>The description interpolates the tenant id, so its string coercion runs first.\<close>

definition createDataAccessPolicy :: "string \<Rightarrow> js_value \<Rightarrow> unit io" where
  "createDataAccessPolicy collectionName tenantId =
     io_catch
       (io_bind (io_lift (ToString tenantId)) (\<lambda>tenantIdText.
        io_bind (send (dataAccessPolicyCommand collectionName tenantIdText)) (\<lambda>_.
          io_return ())))
       (\<lambda>error. if error_name error = ''ConflictException'' then io_return ()
                 else io_throw error)"

text \<open>Decimal text of a number, as a template literal prints \<^verbatim>\<open>maxAttempts\<close>.\<close>

definition digit_char :: "nat \<Rightarrow> char" where
  "digit_char d = ''0123456789'' ! d"

fun string_of_nat :: "nat \<Rightarrow> string" where
  "string_of_nat n =
     (if n < 10 then [digit_char n] else string_of_nat (n div 10) @ [digit_char (n mod 10)])"

declare string_of_nat.simps [simp del]

definition notActiveError :: "nat \<Rightarrow> js_error" where
  "notActiveError maxAttempts =
     Error (''Collection did not become active after '' @ string_of_nat maxAttempts @
            '' attempts'')"

text \<open>
  The \<^verbatim>\<open>try\<close> block of one polling attempt: \<open>Some collection\<close> is the \<^verbatim>\<open>return\<close> of an
  active collection, \<open>None\<close> the end of the block after the 30 second wait.
\<close>

definition poll_attempt :: "string \<Rightarrow> collection_detail option io" where
  "poll_attempt collectionName =
     io_bind (send (batchGetCollectionCommand collectionName)) (\<lambda>response.
       case collectionDetails response of
         Some (collection # _) \<Rightarrow>
           if collection_status collection = ''ACTIVE'' then io_return (Some collection)
           else if collection_status collection = ''FAILED'' then
             io_throw (Error (''Collection creation failed: '' @ collectionName))
           else io_bind (sleep 30000) (\<lambda>_. io_return None)
       | _ \<Rightarrow> io_bind (sleep 30000) (\<lambda>_. io_return None))"

text \<open>
  The \<^verbatim>\<open>for\<close> loop of \<open>waitForCollectionActive\<close> from a given attempt on. The \<^verbatim>\<open>catch\<close>
  receives whatever the \<^verbatim>\<open>try\<close> block threw: on the last attempt it throws the
  "did not become active" error, otherwise it waits and the loop goes on.
\<close>

function waitForCollectionActive_from ::
  "string \<Rightarrow> nat \<Rightarrow> nat \<Rightarrow> world \<Rightarrow> (js_error + collection_detail) \<times> world" where
  "waitForCollectionActive_from collectionName maxAttempts attempt w =
     (if attempt \<le> maxAttempts then
        (case poll_attempt collectionName w of
           (Inr (Some collection), w1) \<Rightarrow> (Inr collection, w1)
         | (Inr None, w1) \<Rightarrow>
             waitForCollectionActive_from collectionName maxAttempts (Suc attempt) w1
         | (Inl error, w1) \<Rightarrow>
             if attempt = maxAttempts then (Inl (notActiveError maxAttempts), w1)
             else waitForCollectionActive_from collectionName maxAttempts (Suc attempt)
                    (snd (sleep 30000 w1)))
      else (Inl (notActiveError maxAttempts), w))"
  by pat_completeness auto
termination
  by (relation "measure (\<lambda>(collectionName, maxAttempts, attempt, w). Suc maxAttempts - attempt)")
     auto

declare waitForCollectionActive_from.simps [simp del]

definition waitForCollectionActive :: "string \<Rightarrow> nat \<Rightarrow> collection_detail io" where
  "waitForCollectionActive collectionName maxAttempts =
     waitForCollectionActive_from collectionName maxAttempts 1"

text \<open>What \<open>createCollection\<close> returns.\<close>

record provisioned =
  provisioned_arn :: string
  provisioned_endpoint :: string
  provisioned_name :: string
  provisioned_status :: string

definition createCollection :: "js_value \<Rightarrow> string \<Rightarrow> provisioned io" where
  "createCollection tenantId tenantSlug =
     (let collectionName = getCollectionName tenantSlug in
      io_catch
        (io_bind (createEncryptionPolicy collectionName) (\<lambda>_.
         io_bind (io_catch (createNetworkPolicy collectionName)
                    (\<lambda>networkError. io_throw networkError)) (\<lambda>_.
         io_bind (io_lift (ToString tenantId)) (\<lambda>tenantIdText.
         io_bind (send (createCollectionCommand collectionName tenantId tenantIdText
                          tenantSlug)) (\<lambda>createResponse.
         io_bind (case createCollectionDetail createResponse of
                    None \<Rightarrow>
                      io_throw missingDetailError
                  | Some detail \<Rightarrow> io_return ()) (\<lambda>_.
         io_bind (createDataAccessPolicy collectionName tenantId) (\<lambda>_.
         io_bind (waitForCollectionActive collectionName 60) (\<lambda>collection.
           io_return \<lparr>provisioned_arn = arn collection,
                      provisioned_endpoint = collectionEndpoint collection,
                      provisioned_name = collectionName,
                      provisioned_status = collection_status collection\<rparr>))))))))
        (\<lambda>error. io_throw error))"

section \<open>SQSService\<close>

definition receiveMessages :: "sqs_message list io" where
  "receiveMessages w =
     (sqs_receive w (length (sqs_log w)), w\<lparr>sqs_log := sqs_log w @ [ReceiveMessage]\<rparr>)"

definition deleteMessage :: "string \<Rightarrow> unit io" where
  "deleteMessage receiptHandle w =
     (let w1 = w\<lparr>sqs_log := sqs_log w @ [DeleteMessage receiptHandle]\<rparr> in
      case sqs_delete_fault w (length (sqs_log w)) of
        Some e \<Rightarrow> (Inl e, w1)
      | None \<Rightarrow> (Inr (), w1\<lparr>deleted := insert receiptHandle (deleted w1)\<rparr>))"

text \<open>
  The body of the \<^verbatim>\<open>for (const message of messages)\<close> loop of \<open>startPolling\<close>: one
  \<^verbatim>\<open>try\<close> whose \<^verbatim>\<open>catch\<close> only logs. The log call before the validation reads
  \<^verbatim>\<open>messageBody.tenant_id\<close>, which throws on \<^verbatim>\<open>null\<close>.
\<close>

definition startPolling_message :: "(js_value \<Rightarrow> unit io) \<Rightarrow> sqs_message \<Rightarrow> world \<Rightarrow> world" where
  "startPolling_message messageHandler msg w =
     snd (io_catch
            (io_bind (io_lift (Body msg)) (\<lambda>messageBody.
             io_bind (if nullish messageBody
                      then io_throw (TypeError ''Cannot read properties of null'')
                      else io_return ()) (\<lambda>_.
             io_bind (io_lift (validateMessage messageBody)) (\<lambda>valid.
               if \<not> valid then deleteMessage (ReceiptHandle msg)
               else io_bind (messageHandler messageBody) (\<lambda>_.
                      deleteMessage (ReceiptHandle msg))))))
            (\<lambda>error. io_return ())
            w)"

text \<open>
  One turn of the \<^verbatim>\<open>while (this.isPolling)\<close> loop: a failed receive is logged and followed
  by a 5 second wait. \<open>startPolling\<close> runs the turns that happen before \<open>stopPolling\<close>
  clears the flag.
\<close>

definition startPolling_turn :: "(js_value \<Rightarrow> unit io) \<Rightarrow> world \<Rightarrow> world" where
  "startPolling_turn messageHandler w =
     (case receiveMessages w of
        (Inr messages, w1) \<Rightarrow> fold (startPolling_message messageHandler) messages w1
      | (Inl error, w1) \<Rightarrow> snd (sleep 5000 w1))"

fun startPolling :: "(js_value \<Rightarrow> unit io) \<Rightarrow> nat \<Rightarrow> world \<Rightarrow> world" where
  "startPolling messageHandler 0 w = w"
| "startPolling messageHandler (Suc turns) w =
     startPolling messageHandler turns (startPolling_turn messageHandler w)"

section \<open>The orchestrator (index.js: processTenantMessage)\<close>

text \<open>
  The destructuring of the message happens before the \<^verbatim>\<open>try\<close>. Only \<^verbatim>\<open>tenant_id\<close> is
  used outside logger calls; the collection is created from \<^verbatim>\<open>tenant.slug\<close>, the slug
  of the fetched row.
\<close>

definition processTenantMessage :: "js_value \<Rightarrow> unit io" where
  "processTenantMessage msg =
     (if nullish msg then io_throw (TypeError ''Cannot destructure property'')
      else
        (let tenant_id = field msg ''tenant_id'' in
         io_catch
           (io_bind (getTenant tenant_id) (\<lambda>tenant.
              if \<not> isValid (validateTenantForProvisioning tenant) then io_return ()
              else (case tenant of
                      None \<Rightarrow> io_throw (TypeError ''Cannot read properties of null'')
                    | Some t \<Rightarrow>
                        io_bind (createCollection tenant_id (slug t)) (\<lambda>collection.
                        io_bind (updateTenantOpenSearch tenant_id
                                   (provisioned_arn collection) ''ready'') (\<lambda>_.
                          io_return ())))))
           (\<lambda>error.
              io_bind (io_catch (markTenantOpenSearchFailed tenant_id (error_message error))
                         (\<lambda>dbError. io_return ())) (\<lambda>_.
                io_throw error))))"

section \<open>Notions used in the statements\<close>

text \<open>
  The commands that \<open>createCollection\<close> builds for a tenant id and a slug: all of them
  carry the collection name \<open>getCollectionName tenantSlug\<close>.
\<close>

definition provisioningCommands :: "js_value \<Rightarrow> string \<Rightarrow> aws_command set" where
  "provisioningCommands tenantId tenantSlug =
     (let collectionName = getCollectionName tenantSlug in
      {encryptionPolicyCommand collectionName, networkPolicyCommand collectionName,
       batchGetCollectionCommand collectionName} \<union>
      (case ToString tenantId of
         Inl e \<Rightarrow> {}
       | Inr tenantIdText \<Rightarrow>
           {createCollectionCommand collectionName tenantId tenantIdText tenantSlug,
            dataAccessPolicyCommand collectionName tenantIdText}))"

text \<open>
  One step of a tenant row as this service may take it: the columns it never writes are
  unchanged, and the OpenSearch status is what it was, or \<^verbatim>\<open>ready\<close>, or \<^verbatim>\<open>failed\<close>.
  \<open>status_monotone\<close> says so of every row of the table, and that no row appears or
  disappears.
\<close>

definition status_step :: "tenant \<Rightarrow> tenant \<Rightarrow> bool" where
  "status_step t t' =
     (row_id t' = row_id t \<and> slug t' = slug t \<and> name t' = name t \<and> status t' = status t \<and>
      (opensearch_status t' = opensearch_status t \<or>
       opensearch_status t' = Some ''ready'' \<or>
       opensearch_status t' = Some ''failed''))"

definition status_monotone :: "world \<Rightarrow> world \<Rightarrow> bool" where
  "status_monotone w w' =
     (\<forall>k. case tenants w k of
             None \<Rightarrow> tenants w' k = None
           | Some t \<Rightarrow> (case tenants w' k of None \<Rightarrow> False | Some t' \<Rightarrow> status_step t t'))"

text \<open>
  What an answer of the provider to a status query reports as active: the first entry of
  its \<^verbatim>\<open>collectionDetails\<close>, when there is one and its status is \<^verbatim>\<open>ACTIVE\<close>.
\<close>

definition active_answer :: "js_error + aws_response \<Rightarrow> collection_detail option" where
  "active_answer r =
     (case r of
        Inl e \<Rightarrow> None
      | Inr response \<Rightarrow>
          (case collectionDetails response of
             Some (c # cs) \<Rightarrow> if collection_status c = ''ACTIVE'' then Some c else None
           | _ \<Rightarrow> None))"

text \<open>
  Relations between the world before and after a call, for the frame rules below:
  \<open>keeps R m\<close> says that running \<open>m\<close> takes every world to an \<open>R\<close>-related one.
\<close>

definition preorder_rel :: "(world \<Rightarrow> world \<Rightarrow> bool) \<Rightarrow> bool" where
  "preorder_rel R = ((\<forall>w. R w w) \<and> (\<forall>a b c. R a b \<longrightarrow> R b c \<longrightarrow> R a c))"

definition keeps :: "(world \<Rightarrow> world \<Rightarrow> bool) \<Rightarrow> 'a io \<Rightarrow> bool" where
  "keeps R m = (\<forall>w. R w (snd (m w)))"

definition outside_db_same :: "world \<Rightarrow> world \<Rightarrow> bool" where
  "outside_db_same w w' =
     (db_fault w' = db_fault w \<and> aws_reply w' = aws_reply w \<and> aws_log w' = aws_log w \<and>
      slept_ms w' = slept_ms w \<and> sqs_receive w' = sqs_receive w \<and>
      sqs_delete_fault w' = sqs_delete_fault w \<and> sqs_log w' = sqs_log w \<and>
      deleted w' = deleted w)"

definition outside_aws_same :: "world \<Rightarrow> world \<Rightarrow> bool" where
  "outside_aws_same w w' =
     (tenants w' = tenants w \<and> txn w' = txn w \<and> db_fault w' = db_fault w \<and>
      db_log w' = db_log w \<and> aws_reply w' = aws_reply w \<and>
      sqs_receive w' = sqs_receive w \<and> sqs_delete_fault w' = sqs_delete_fault w \<and>
      sqs_log w' = sqs_log w \<and> deleted w' = deleted w)"

definition queue_same :: "world \<Rightarrow> world \<Rightarrow> bool" where
  "queue_same w w' = (sqs_log w' = sqs_log w \<and> deleted w' = deleted w)"

definition sends_only :: "aws_command set \<Rightarrow> world \<Rightarrow> world \<Rightarrow> bool" where
  "sends_only A w w' = (\<exists>cs. aws_log w' = aws_log w @ cs \<and> set cs \<subseteq> A)"

section \<open>Sample inputs\<close>

text \<open>Concrete tenants, provider behaviours, worlds and messages on which the results below are run.\<close>

definition sample_uuid :: string where
  "sample_uuid = ''11111111-1111-1111-1111-111111111111''"

definition sample_arn :: string where
  "sample_arn = ''arn:aws:aoss:us-east-1:625867133463:collection/abc123''"

definition sample_collection :: "string \<Rightarrow> collection_detail" where
  "sample_collection st =
     \<lparr>arn = sample_arn,
      collectionEndpoint = ''https://abc123.us-east-1.aoss.amazonaws.com'',
      collection_status = st\<rparr>"

definition reply_with :: "string \<Rightarrow> js_error + aws_response" where
  "reply_with st =
     Inr \<lparr>createCollectionDetail = Some (sample_collection ''CREATING''),
          collectionDetails = Some [sample_collection st]\<rparr>"

definition sample_world ::
  "(js_value \<rightharpoonup> tenant) \<Rightarrow> (nat \<Rightarrow> js_error option) \<Rightarrow>
   (nat \<Rightarrow> aws_command \<Rightarrow> js_error + aws_response) \<Rightarrow> world" where
  "sample_world tab faults provider =
     \<lparr>tenants = tab, txn = None, db_fault = faults, db_log = [],
      aws_reply = provider, aws_log = [], slept_ms = 0,
      sqs_receive = (\<lambda>n. Inr []), sqs_delete_fault = (\<lambda>n. None), sqs_log = [],
      deleted = {}\<rparr>"

definition no_fault :: "nat \<Rightarrow> js_error option" where
  "no_fault n = None"

text \<open>
  A provider that is ready at once; one whose first answer is \<^verbatim>\<open>FAILED\<close>; one whose
  every answer is \<^verbatim>\<open>FAILED\<close>; one whose first call fails in transit; one on which every
  policy and the collection already exist.
\<close>

definition always_active :: "nat \<Rightarrow> aws_command \<Rightarrow> js_error + aws_response" where
  "always_active n command = reply_with ''ACTIVE''"

definition failed_then_active :: "nat \<Rightarrow> aws_command \<Rightarrow> js_error + aws_response" where
  "failed_then_active n command = reply_with (if n = 0 then ''FAILED'' else ''ACTIVE'')"

definition always_failed :: "nat \<Rightarrow> aws_command \<Rightarrow> js_error + aws_response" where
  "always_failed n command = reply_with ''FAILED''"

definition error_then_active :: "nat \<Rightarrow> aws_command \<Rightarrow> js_error + aws_response" where
  "error_then_active n command =
     (if n = 0 then Inl (JsError ''TimeoutError'' ''socket hang up'')
      else reply_with ''ACTIVE'')"

definition conflict :: js_error where
  "conflict = JsError ''ConflictException'' ''Resource already exists''"

definition everything_exists :: "nat \<Rightarrow> aws_command \<Rightarrow> js_error + aws_response" where
  "everything_exists n command =
     (case command of
        BatchGetCollectionCommand names \<Rightarrow> reply_with ''ACTIVE''
      | _ \<Rightarrow> Inl conflict)"

definition payload :: "js_value \<Rightarrow> js_value \<Rightarrow> js_value \<Rightarrow> js_value" where
  "payload tenant_id tenant_slug timestamp =
     JObj [(''tenant_id'', tenant_id), (''tenant_slug'', tenant_slug),
           (''timestamp'', timestamp)]"

definition valid_payload :: js_value where
  "valid_payload =
     payload (JStr sample_uuid) (JStr ''acme-corp'') (JStr ''2025-01-01T00:00:00Z'')"


definition delivery :: "string \<Rightarrow> js_error + js_value \<Rightarrow> sqs_message" where
  "delivery receiptHandle body =
     \<lparr>MessageId = ''msg-1'', ReceiptHandle = receiptHandle, Body = body\<rparr>"

definition unparsable_message :: sqs_message where
  "unparsable_message =
     delivery ''receipt-1''
       (Inl (JsError ''SyntaxError'' ''Unexpected token h in JSON at position 1''))"

definition null_message :: sqs_message where
  "null_message = delivery ''receipt-2'' (Inr JNull)"

text \<open>
  A tenant row with a given reference and status, and the table that holds just that row;
  a provider that refuses every call; a database whose i-th call fails.
\<close>

definition acme :: "string option \<Rightarrow> string option \<Rightarrow> tenant" where
  "acme reference st =
     \<lparr>row_id = sample_uuid, slug = ''acme'', name = ''Acme Corp'', status = ''active'',
      opensearch_arn = reference, opensearch_status = st\<rparr>"

definition table_with :: "tenant \<Rightarrow> js_value \<rightharpoonup> tenant" where
  "table_with t = [JStr (row_id t) \<mapsto> t]"

definition denied :: js_error where
  "denied = JsError ''AccessDeniedException'' ''User is not authorized to perform aoss:CreateSecurityPolicy''"

definition access_denied :: "nat \<Rightarrow> aws_command \<Rightarrow> js_error + aws_response" where
  "access_denied n command = Inl denied"

definition timeout :: js_error where
  "timeout = JsError ''Error'' ''Connection terminated due to connection timeout''"

definition fault_at :: "nat \<Rightarrow> nat \<Rightarrow> js_error option" where
  "fault_at i n = (if n = i then Some timeout else None)"

section \<open>Basic facts\<close>

lemmas io_defs = io_return_def io_throw_def io_bind_def io_catch_def io_lift_def io_finally_def

lemmas sample_defs = sample_world_def reply_with_def sample_collection_def no_fault_def

lemma bind_lift_Inl: "io_bind (io_lift (Inl e)) f = io_throw e"
  by (rule ext) (simp add: io_defs)

lemma bind_lift_Inr: "io_bind (io_lift (Inr x)) f = f x"
  by (rule ext) (simp add: io_defs)

lemma bind_return: "io_bind (io_return x) f = f x"
  by (rule ext) (simp add: io_defs)

lemma bind_throw: "io_bind (io_throw e) f = io_throw e"
  by (rule ext) (simp add: io_defs)

lemma catch_return: "io_catch (io_return x) h = io_return x"
  by (rule ext) (simp add: io_defs)

lemma catch_throw: "io_catch (io_throw e) h = h e"
  by (rule ext) (simp add: io_defs)

lemmas io_laws = bind_lift_Inl bind_lift_Inr bind_return bind_throw catch_return catch_throw

lemma sample_uuid_matches: "uuidRegex_test sample_uuid"
  by (simp add: sample_uuid_def uuidRegex_test_def hex_digit_def eval_nat_numeral)

lemma sample_uuid_nonempty: "sample_uuid \<noteq> []"
  by (simp add: sample_uuid_def)

lemma acme_corp_matches: "slugRegex_test ''acme-corp''"
  by (simp add: slugRegex_test_def lower_alnum_def slug_char_def)

lemma valid_payload_accepted: "validateMessage valid_payload = Inr True"
  by (simp add: valid_payload_def payload_def validateMessage_def requiredFields_def
        sample_uuid_matches sample_uuid_nonempty acme_corp_matches)


lemma valid_payload_tenant_id: "field valid_payload ''tenant_id'' = JStr sample_uuid"
  by (simp add: valid_payload_def payload_def)

lemma valid_payload_not_nullish: "\<not> nullish valid_payload"
  by (simp add: valid_payload_def payload_def)

lemma sample_world_simps:
  "tenants (sample_world tab f p) = tab" "txn (sample_world tab f p) = None"
  "db_fault (sample_world tab f p) = f" "db_log (sample_world tab f p) = []"
  "aws_reply (sample_world tab f p) = p" "aws_log (sample_world tab f p) = []"
  "slept_ms (sample_world tab f p) = 0" "sqs_log (sample_world tab f p) = []"
  "deleted (sample_world tab f p) = {}"
  "sqs_delete_fault (sample_world tab f p) = (\<lambda>n. None)"
  by (simp_all add: sample_world_def)

lemma acme_simps:
  "slug (acme a st) = ''acme''" "row_id (acme a st) = sample_uuid"
  "(acme a st)\<lparr>opensearch_arn := Some a', opensearch_status := Some st'\<rparr> = acme (Some a') (Some st')"
  "(acme a st)\<lparr>opensearch_status := Some st'\<rparr> = acme a (Some st')"
  by (simp_all add: acme_def)

lemma table_with_simps:
  "table_with (acme a st) (JStr sample_uuid) = Some (acme a st)"
  "(table_with (acme a st))(JStr sample_uuid \<mapsto> acme a' st') = table_with (acme a' st')"
  by (simp_all add: table_with_def acme_simps)

lemma acme_eligible: "st \<noteq> Some ''ready'' \<Longrightarrow> isValid (validateTenantForProvisioning (Some (acme None st)))"
  by (simp add: validateTenantForProvisioning_def acme_def)

section \<open>Structural validation of the payload\<close>




section \<open>Unparsable bodies in the consumer loop\<close>

text \<open>
  Claim C3 on the code: \<^verbatim>\<open>JSON.parse\<close> runs inside the \<^verbatim>\<open>try\<close> of the loop body, whose
  \<^verbatim>\<open>catch\<close> only logs. A body that does not parse, and the body \<^verbatim>\<open>null\<close> (on which the
  log call before the validation throws), leave the world as it was: no delete call is
  issued and the message stays in the queue for redelivery, whatever the handler is.
\<close>

theorem startPolling_keeps_unparsable_message:
  "startPolling_message h unparsable_message w = w \<and>
   startPolling_message h null_message w = w"
  by (simp add: startPolling_message_def unparsable_message_def null_message_def delivery_def
        io_defs)

section \<open>A failed status during the readiness poll\<close>

lemmas aws_defs = poll_attempt_def send_def sleep_def

text \<open>
  Claim C2 on the code: the error thrown for a \<^verbatim>\<open>FAILED\<close> status is thrown inside the
  \<^verbatim>\<open>try\<close> of the polling loop and caught by its own \<^verbatim>\<open>catch\<close>, which waits and polls
  again. When the provider answers \<^verbatim>\<open>FAILED\<close> to the first poll and \<^verbatim>\<open>ACTIVE\<close> to the
  second, \<open>waitForCollectionActive\<close> polls twice and returns the active collection; no
  error is raised. When every answer is \<^verbatim>\<open>FAILED\<close>, a budget of three attempts is used up
  (three polls, two waits) before the "did not become active" error is raised.
\<close>

theorem waitForCollectionActive_polls_past_failed:
  "waitForCollectionActive ''accreda-acme-corp'' 60
     (sample_world Map.empty no_fault failed_then_active) =
   (Inr (sample_collection ''ACTIVE''),
    (sample_world Map.empty no_fault failed_then_active)
      \<lparr>aws_log := [batchGetCollectionCommand ''accreda-acme-corp'',
                   batchGetCollectionCommand ''accreda-acme-corp''],
       slept_ms := 30000\<rparr>) \<and>
   waitForCollectionActive ''accreda-acme-corp'' 3
     (sample_world Map.empty no_fault always_failed) =
   (Inl (Error ''Collection did not become active after 3 attempts''),
    (sample_world Map.empty no_fault always_failed)
      \<lparr>aws_log := [batchGetCollectionCommand ''accreda-acme-corp'',
                   batchGetCollectionCommand ''accreda-acme-corp'',
                   batchGetCollectionCommand ''accreda-acme-corp''],
       slept_ms := 60000\<rparr>)"
  by (simp add: waitForCollectionActive_def waitForCollectionActive_from.simps aws_defs io_defs
        sample_defs failed_then_active_def always_failed_def notActiveError_def
        string_of_nat.simps digit_char_def)

section \<open>An existing collection\<close>

lemma everything_exists_simps:
  "everything_exists n (encryptionPolicyCommand c) = Inl conflict"
  "everything_exists n (networkPolicyCommand c) = Inl conflict"
  "everything_exists n (createCollectionCommand c t tx sl) = Inl conflict"
  "everything_exists n (dataAccessPolicyCommand c tx) = Inl conflict"
  "everything_exists n (batchGetCollectionCommand c) = reply_with ''ACTIVE''"
  by (simp_all add: everything_exists_def encryptionPolicyCommand_def networkPolicyCommand_def
        createCollectionCommand_def dataAccessPolicyCommand_def batchGetCollectionCommand_def)

text \<open>
  Claim C4 on the code: the three policy steps catch a \<^verbatim>\<open>ConflictException\<close>, the
  \<^verbatim>\<open>CreateCollectionCommand\<close> is sent with no handler of its own. On a provider where the
  policies and the collection already exist, \<open>createCollection\<close> passes the two policy steps
  and throws the \<^verbatim>\<open>ConflictException\<close> of the collection: the data access policy is never
  created and the collection is never polled.
\<close>

theorem createCollection_conflict_propagates:
  "createCollection (JStr sample_uuid) ''acme-corp''
     (sample_world Map.empty no_fault everything_exists) =
   (Inl conflict,
    (sample_world Map.empty no_fault everything_exists)
      \<lparr>aws_log := [encryptionPolicyCommand ''accreda-acme-corp'',
                   networkPolicyCommand ''accreda-acme-corp'',
                   createCollectionCommand ''accreda-acme-corp'' (JStr sample_uuid)
                     sample_uuid ''acme-corp'']\<rparr>)"
  by (simp add: createCollection_def createEncryptionPolicy_def createNetworkPolicy_def
        getCollectionName_def io_defs send_def sample_world_def everything_exists_simps
        conflict_def Let_def)

section \<open>The readiness poll is bounded\<close>

lemma wait_from_step:
  assumes "a \<le> mx" "poll_attempt n w = (r, w1)"
  shows "waitForCollectionActive_from n mx a w =
     (case r of
        Inr (Some c) \<Rightarrow> (Inr c, w1)
      | Inr None \<Rightarrow> waitForCollectionActive_from n mx (Suc a) w1
      | Inl e \<Rightarrow>
          if a = mx then (Inl (notActiveError mx), w1)
          else waitForCollectionActive_from n mx (Suc a) (snd (sleep 30000 w1)))"
  using assms by (subst waitForCollectionActive_from.simps) simp

lemma wait_from_done:
  "\<not> a \<le> mx \<Longrightarrow> waitForCollectionActive_from n mx a w = (Inl (notActiveError mx), w)"
  by (subst waitForCollectionActive_from.simps) simp

lemma poll_attempt_effect:
  assumes "poll_attempt n w = (r, w1)"
  shows "aws_log w1 = aws_log w @ [batchGetCollectionCommand n]"
    and "r = Inr (Some c) \<Longrightarrow> collection_status c = ''ACTIVE'' \<and> slept_ms w1 = slept_ms w"
    and "r = Inr None \<Longrightarrow> slept_ms w1 = slept_ms w + 30000"
    and "r = Inl e \<Longrightarrow> slept_ms w1 = slept_ms w"
  using assms
  by (auto simp: poll_attempt_def send_def sleep_def io_defs
           split: sum.splits option.splits list.splits if_splits)

text \<open>
  From attempt \<open>a\<close> on, the loop sends at most \<open>Suc mx - a\<close> status queries and nothing
  else, waits at most 30 seconds per query, and ends with an active collection or with the
  "did not become active" error.
\<close>

lemma wait_from_bounded:
  "waitForCollectionActive_from n mx a w = (r, w') \<Longrightarrow>
     (\<exists>k. k \<le> Suc mx - a \<and>
          aws_log w' = aws_log w @ replicate k (batchGetCollectionCommand n) \<and>
          slept_ms w' \<le> slept_ms w + k * 30000) \<and>
     ((\<exists>c. r = Inr c \<and> collection_status c = ''ACTIVE'') \<or> r = Inl (notActiveError mx))"
proof (induction n mx a w arbitrary: r w' rule: waitForCollectionActive_from.induct)
  case (1 n mx a w)
  show ?case
  proof (cases "a \<le> mx")
    case False
    with "1.prems" have "r = Inl (notActiveError mx)" "w' = w"
      by (simp_all add: wait_from_done)
    then show ?thesis by simp
  next
    case True
    obtain p w1 where p: "poll_attempt n w = (p, w1)" by (cases "poll_attempt n w")
    note unf = wait_from_step[OF True p]
    note eff = poll_attempt_effect[OF p]
    have one: "aws_log w1 = aws_log w @ replicate 1 (batchGetCollectionCommand n)"
      using eff(1) by simp
    show ?thesis
    proof (cases p)
      case (Inr found)
      show ?thesis
      proof (cases found)
        case (Some c)
        with "1.prems" unf Inr have "r = Inr c" "w' = w1" by simp_all
        moreover have "collection_status c = ''ACTIVE''" "slept_ms w1 = slept_ms w"
          using eff(2)[of c] Inr Some by simp_all
        ultimately show ?thesis using one True
          by (intro conjI exI[of _ 1]) simp_all
      next
        case None
        with "1.prems" unf Inr
        have rec: "waitForCollectionActive_from n mx (Suc a) w1 = (r, w')" by simp
        from "1.IH"(2)[OF True p[symmetric] Inr None rec]
        obtain k where k: "k \<le> Suc mx - Suc a"
            "aws_log w' = aws_log w1 @ replicate k (batchGetCollectionCommand n)"
            "slept_ms w' \<le> slept_ms w1 + k * 30000"
          and out: "(\<exists>c. r = Inr c \<and> collection_status c = ''ACTIVE'') \<or>
                    r = Inl (notActiveError mx)"
          by blast
        have "slept_ms w1 = slept_ms w + 30000" using eff(3) Inr None by simp
        with k eff(1)
        have "aws_log w' = aws_log w @ replicate (Suc k) (batchGetCollectionCommand n)"
          and "slept_ms w' \<le> slept_ms w + Suc k * 30000"
          by (simp_all add: replicate_append_same)
        moreover have "Suc k \<le> Suc mx - a" using k(1) True by arith
        ultimately show ?thesis using out by blast
      qed
    next
      case (Inl e)
      have sl: "slept_ms w1 = slept_ms w" using eff(4) Inl by simp
      show ?thesis
      proof (cases "a = mx")
        case True
        with "1.prems" unf Inl have "r = Inl (notActiveError mx)" "w' = w1" by simp_all
        then show ?thesis using one sl \<open>a \<le> mx\<close>
          by (intro conjI exI[of _ 1]) simp_all
      next
        case False
        let ?w2 = "snd (sleep 30000 w1)"
        from "1.prems" unf Inl False
        have rec: "waitForCollectionActive_from n mx (Suc a) ?w2 = (r, w')" by simp
        from "1.IH"(1)[OF True p[symmetric] Inl False rec]
        obtain k where k: "k \<le> Suc mx - Suc a"
            "aws_log w' = aws_log ?w2 @ replicate k (batchGetCollectionCommand n)"
            "slept_ms w' \<le> slept_ms ?w2 + k * 30000"
          and out: "(\<exists>c. r = Inr c \<and> collection_status c = ''ACTIVE'') \<or>
                    r = Inl (notActiveError mx)"
          by blast
        have "slept_ms ?w2 = slept_ms w + 30000" "aws_log ?w2 = aws_log w1"
          using sl by (simp_all add: sleep_def)
        with k eff(1)
        have "aws_log w' = aws_log w @ replicate (Suc k) (batchGetCollectionCommand n)"
          and "slept_ms w' \<le> slept_ms w + Suc k * 30000"
          by (simp_all add: replicate_append_same)
        moreover have "Suc k \<le> Suc mx - a" using k(1) True by arith
        ultimately show ?thesis using out by blast
      qed
    qed
  qed
qed

lemma thrown_poll_is_retried:
  assumes "a < mx" "aws_reply w (length (aws_log w)) (batchGetCollectionCommand n) = Inl e"
  shows "waitForCollectionActive_from n mx a w =
         waitForCollectionActive_from n mx (Suc a)
           (w\<lparr>aws_log := aws_log w @ [batchGetCollectionCommand n],
              slept_ms := slept_ms w + 30000\<rparr>)"
proof -
  have p: "poll_attempt n w =
      (Inl e, w\<lparr>aws_log := aws_log w @ [batchGetCollectionCommand n]\<rparr>)"
    using assms(2) by (simp add: poll_attempt_def send_def io_defs)
  show ?thesis using assms(1) wait_from_step[OF _ p, of a mx]
    by (simp add: sleep_def)
qed

lemma failed_status_is_retried:
  assumes "a < mx"
    and "aws_reply w (length (aws_log w)) (batchGetCollectionCommand n) = Inr response"
    and "collectionDetails response = Some (c # cs)" "collection_status c = ''FAILED''"
  shows "waitForCollectionActive_from n mx a w =
         waitForCollectionActive_from n mx (Suc a)
           (w\<lparr>aws_log := aws_log w @ [batchGetCollectionCommand n],
              slept_ms := slept_ms w + 30000\<rparr>)"
proof -
  have p: "poll_attempt n w =
      (Inl (Error (''Collection creation failed: '' @ n)),
       w\<lparr>aws_log := aws_log w @ [batchGetCollectionCommand n]\<rparr>)"
    using assms(2-4) by (simp add: poll_attempt_def send_def io_defs)
  show ?thesis using assms(1) wait_from_step[OF _ p, of a mx]
    by (simp add: sleep_def)
qed

lemma notActiveError_60:
  "notActiveError 60 = Error ''Collection did not become active after 60 attempts''"
  by (simp add: notActiveError_def string_of_nat.simps digit_char_def)

lemma active_answer_Some:
  "active_answer r = Some c \<longleftrightarrow>
     (\<exists>response cs. r = Inr response \<and> collectionDetails response = Some (c # cs) \<and>
                    collection_status c = ''ACTIVE'')"
  by (auto simp: active_answer_def split: sum.splits option.splits list.splits if_splits)

lemma active_answer_None:
  "active_answer r = None \<longleftrightarrow>
     \<not> (\<exists>response c cs. r = Inr response \<and> collectionDetails response = Some (c # cs) \<and>
                         collection_status c = ''ACTIVE'')"
  by (auto simp: active_answer_def split: sum.splits option.splits list.splits if_splits)

lemma poll_attempt_answer:
  assumes "poll_attempt n w = (p, w1)"
  shows "aws_reply w1 = aws_reply w"
    and "active_answer (aws_reply w (length (aws_log w)) (batchGetCollectionCommand n)) =
           (case p of Inr (Some c) \<Rightarrow> Some c | _ \<Rightarrow> None)"
  using assms
  by (auto simp: poll_attempt_def send_def sleep_def io_defs active_answer_def
           split: sum.splits option.splits list.splits if_splits)

text \<open>
  The result of the loop from attempt \<open>a\<close> on, in terms of the provider's answers: it
  returns the collection of the first answer that reports one as active, after sending
  the queries up to that answer; it throws only when none of the remaining attempts got
  such an answer, after sending them all.
\<close>

lemma wait_from_result:
  "waitForCollectionActive_from n mx a w = (r, w') \<Longrightarrow>
     aws_reply w' = aws_reply w \<and>
     (case r of
        Inr c \<Rightarrow>
          (\<exists>k. a + k \<le> mx \<and>
               aws_log w' = aws_log w @ replicate (Suc k) (batchGetCollectionCommand n) \<and>
               active_answer (aws_reply w (length (aws_log w) + k)
                                (batchGetCollectionCommand n)) = Some c \<and>
               (\<forall>j<k. active_answer (aws_reply w (length (aws_log w) + j)
                                        (batchGetCollectionCommand n)) = None))
      | Inl e \<Rightarrow>
          e = notActiveError mx \<and>
          aws_log w' = aws_log w @ replicate (Suc mx - a) (batchGetCollectionCommand n) \<and>
          (\<forall>j<Suc mx - a. active_answer (aws_reply w (length (aws_log w) + j)
                                           (batchGetCollectionCommand n)) = None))"
proof (induction n mx a w arbitrary: r w' rule: waitForCollectionActive_from.induct)
  case (1 n mx a w)
  let ?cmd = "batchGetCollectionCommand n"
  let ?ans = "\<lambda>v j. active_answer (aws_reply v (length (aws_log v) + j) ?cmd)"
  show ?case
  proof (cases "a \<le> mx")
    case False
    with "1.prems" have "r = Inl (notActiveError mx)" "w' = w"
      by (simp_all add: wait_from_done)
    then show ?thesis using False by simp
  next
    case True
    obtain p w1 where p: "poll_attempt n w = (p, w1)" by (cases "poll_attempt n w")
    note unf = wait_from_step[OF True p]
    note eff = poll_attempt_effect[OF p]
    note ans = poll_attempt_answer[OF p]
    have shift: "\<And>j. ?ans w1 j = ?ans w (Suc j)"
      using eff(1) ans(1) by simp
    show ?thesis
    proof (cases p)
      case (Inr found)
      show ?thesis
      proof (cases found)
        case (Some c)
        with "1.prems" unf Inr have "r = Inr c" "w' = w1" by simp_all
        moreover have "?ans w 0 = Some c" using ans(2) Inr Some by simp
        ultimately show ?thesis using eff(1) ans(1) True
          by (auto intro!: exI[of _ 0])
      next
        case None
        have first: "?ans w 0 = None" using ans(2) Inr None by simp
        from "1.prems" unf Inr None
        have rec: "waitForCollectionActive_from n mx (Suc a) w1 = (r, w')" by simp
        note ih = "1.IH"(2)[OF True p[symmetric] Inr None rec]
        show ?thesis
        proof (cases r)
          case (Inl e)
          with ih have e: "e = notActiveError mx"
            and lg: "aws_log w' = aws_log w1 @ replicate (Suc mx - Suc a) ?cmd"
            and no: "\<forall>j<Suc mx - Suc a. ?ans w1 j = None"
            and rp: "aws_reply w' = aws_reply w1"
            by simp_all
          have "aws_log w' = aws_log w @ replicate (Suc mx - a) ?cmd"
            using lg eff(1) True by (simp add: Suc_diff_le replicate_append_same)
          moreover have "\<forall>j<Suc mx - a. ?ans w j = None"
          proof (intro allI impI)
            fix j assume j: "j < Suc mx - a"
            show "?ans w j = None"
            proof (cases j)
              case 0
              then show ?thesis using first by simp
            next
              case (Suc i)
              then have "i < Suc mx - Suc a" using j by arith
              with no shift Suc show ?thesis by simp
            qed
          qed
          ultimately show ?thesis using Inl e rp ans(1) by simp
        next
          case ret: (Inr c)
          with ih obtain k where k: "Suc a + k \<le> mx"
            and lg: "aws_log w' = aws_log w1 @ replicate (Suc k) ?cmd"
            and yes: "?ans w1 k = Some c"
            and no: "\<forall>j<k. ?ans w1 j = None"
            and rp: "aws_reply w' = aws_reply w1"
            by auto
          have "a + Suc k \<le> mx" using k by simp
          moreover have "aws_log w' = aws_log w @ replicate (Suc (Suc k)) ?cmd"
            using lg eff(1) by (simp add: replicate_append_same)
          moreover have "?ans w (Suc k) = Some c" using yes shift by simp
          moreover have "\<forall>j<Suc k. ?ans w j = None"
          proof (intro allI impI)
            fix j assume j: "j < Suc k"
            show "?ans w j = None"
            proof (cases j)
              case 0
              then show ?thesis using first by simp
            next
              case (Suc i)
              then have "i < k" using j by arith
              with no shift Suc show ?thesis by simp
            qed
          qed
          ultimately show ?thesis using ret rp ans(1) by (auto intro!: exI[of _ "Suc k"])
        qed
      qed
    next
      case (Inl err)
      have first: "?ans w 0 = None" using ans(2) Inl by simp
      show ?thesis
      proof (cases "a = mx")
        case same: True
        with "1.prems" unf Inl have "r = Inl (notActiveError mx)" "w' = w1" by simp_all
        then show ?thesis using eff(1) ans(1) first same by simp
      next
        case False
        let ?w2 = "snd (sleep 30000 w1)"
        have w2: "aws_log ?w2 = aws_log w1" "aws_reply ?w2 = aws_reply w1"
          by (simp_all add: sleep_def)
        have shift2: "\<And>j. ?ans ?w2 j = ?ans w (Suc j)"
          using shift w2 by simp
        from "1.prems" unf Inl False
        have rec: "waitForCollectionActive_from n mx (Suc a) ?w2 = (r, w')" by simp
        note ih = "1.IH"(1)[OF True p[symmetric] Inl False rec]
        show ?thesis
        proof (cases r)
          case thrown: (Inl e)
          with ih have e: "e = notActiveError mx"
            and lg: "aws_log w' = aws_log ?w2 @ replicate (Suc mx - Suc a) ?cmd"
            and no: "\<forall>j<Suc mx - Suc a. ?ans ?w2 j = None"
            and rp: "aws_reply w' = aws_reply ?w2"
            by simp_all
          have "aws_log w' = aws_log w @ replicate (Suc mx - a) ?cmd"
            using lg eff(1) w2 True by (simp add: Suc_diff_le replicate_append_same)
          moreover have "\<forall>j<Suc mx - a. ?ans w j = None"
          proof (intro allI impI)
            fix j assume j: "j < Suc mx - a"
            show "?ans w j = None"
            proof (cases j)
              case 0
              then show ?thesis using first by simp
            next
              case (Suc i)
              then have "i < Suc mx - Suc a" using j by arith
              with no shift2 Suc show ?thesis by simp
            qed
          qed
          ultimately show ?thesis using thrown e rp w2 ans(1) by simp
        next
          case ret: (Inr c)
          with ih obtain k where k: "Suc a + k \<le> mx"
            and lg: "aws_log w' = aws_log ?w2 @ replicate (Suc k) ?cmd"
            and yes: "?ans ?w2 k = Some c"
            and no: "\<forall>j<k. ?ans ?w2 j = None"
            and rp: "aws_reply w' = aws_reply ?w2"
            by auto
          have "a + Suc k \<le> mx" using k by simp
          moreover have "aws_log w' = aws_log w @ replicate (Suc (Suc k)) ?cmd"
            using lg eff(1) w2 by (simp add: replicate_append_same)
          moreover have "?ans w (Suc k) = Some c" using yes shift2 by simp
          moreover have "\<forall>j<Suc k. ?ans w j = None"
          proof (intro allI impI)
            fix j assume j: "j < Suc k"
            show "?ans w j = None"
            proof (cases j)
              case 0
              then show ?thesis using first by simp
            next
              case (Suc i)
              then have "i < k" using j by arith
              with no shift2 Suc show ?thesis by simp
            qed
          qed
          ultimately show ?thesis using ret rp w2 ans(1) by (auto intro!: exI[of _ "Suc k"])
        qed
      qed
    qed
  qed
qed

text \<open>
  Claim C7: the readiness poll, run with its default budget of 60 attempts as
  \<open>createCollection\<close> runs it, sends at most 60 status queries and nothing else (waiting at
  most 30 seconds per query), and always ends: the function is total, and its result is
  either a collection whose status is \<^verbatim>\<open>ACTIVE\<close> or the error "Collection did not become
  active after 60 attempts". A collection is returned only as the first entry of the
  provider's answer to the last query sent, that answer being the first to report an
  active collection; the error is thrown only after all 60 queries, none of whose answers
  reported an active collection. An error thrown during an attempt before the last is not
  propagated: the loop waits 30 seconds and goes on with the next attempt of the same
  budget.
\<close>

theorem waitForCollectionActive_bounded:
  "(\<exists>k\<le>60. aws_log (snd (waitForCollectionActive n 60 w)) =
              aws_log w @ replicate k (BatchGetCollectionCommand [n]) \<and>
            slept_ms (snd (waitForCollectionActive n 60 w)) \<le> slept_ms w + k * 30000) \<and>
   ((\<exists>c. fst (waitForCollectionActive n 60 w) = Inr c \<and> collection_status c = ''ACTIVE'') \<or>
    fst (waitForCollectionActive n 60 w) =
      Inl (Error ''Collection did not become active after 60 attempts'')) \<and>
   (\<forall>c. fst (waitForCollectionActive n 60 w) = Inr c \<longrightarrow>
      (\<exists>k<60.
         aws_log (snd (waitForCollectionActive n 60 w)) =
           aws_log w @ replicate (Suc k) (BatchGetCollectionCommand [n]) \<and>
         (\<exists>response cs.
            aws_reply w (length (aws_log w) + k) (BatchGetCollectionCommand [n]) = Inr response \<and>
            collectionDetails response = Some (c # cs)) \<and>
         collection_status c = ''ACTIVE'' \<and>
         (\<forall>j<k. \<not> (\<exists>response c' cs.
            aws_reply w (length (aws_log w) + j) (BatchGetCollectionCommand [n]) = Inr response \<and>
            collectionDetails response = Some (c' # cs) \<and>
            collection_status c' = ''ACTIVE'')))) \<and>
   (\<forall>err. fst (waitForCollectionActive n 60 w) = Inl err \<longrightarrow>
      aws_log (snd (waitForCollectionActive n 60 w)) =
        aws_log w @ replicate 60 (BatchGetCollectionCommand [n]) \<and>
      (\<forall>j<60. \<not> (\<exists>response c' cs.
         aws_reply w (length (aws_log w) + j) (BatchGetCollectionCommand [n]) = Inr response \<and>
         collectionDetails response = Some (c' # cs) \<and>
         collection_status c' = ''ACTIVE''))) \<and>
   (a < 60 \<longrightarrow> aws_reply w (length (aws_log w)) (BatchGetCollectionCommand [n]) = Inl e \<longrightarrow>
      waitForCollectionActive_from n 60 a w =
      waitForCollectionActive_from n 60 (Suc a)
        (w\<lparr>aws_log := aws_log w @ [BatchGetCollectionCommand [n]],
           slept_ms := slept_ms w + 30000\<rparr>))"
proof -
  let ?cmd = "BatchGetCollectionCommand [n]"
  have cmd: "batchGetCollectionCommand n = ?cmd" by (simp add: batchGetCollectionCommand_def)
  obtain r w' where run: "waitForCollectionActive_from n 60 1 w = (r, w')"
    by (cases "waitForCollectionActive_from n 60 1 w")
  then have R: "waitForCollectionActive n 60 w = (r, w')"
    by (simp add: waitForCollectionActive_def)
  from wait_from_bounded[OF run]
  obtain k where "k \<le> Suc 60 - 1"
      "aws_log w' = aws_log w @ replicate k ?cmd"
      "slept_ms w' \<le> slept_ms w + k * 30000"
    and out: "(\<exists>c. r = Inr c \<and> collection_status c = ''ACTIVE'') \<or> r = Inl (notActiveError 60)"
    unfolding cmd by blast
  then have 1: "\<exists>k\<le>60. aws_log w' = aws_log w @ replicate k ?cmd \<and>
      slept_ms w' \<le> slept_ms w + k * 30000"
    by auto
  note res = wait_from_result[OF run, unfolded cmd]
  have 3: "\<forall>c. r = Inr c \<longrightarrow>
      (\<exists>k<60. aws_log w' = aws_log w @ replicate (Suc k) ?cmd \<and>
         (\<exists>response cs. aws_reply w (length (aws_log w) + k) ?cmd = Inr response \<and>
            collectionDetails response = Some (c # cs)) \<and>
         collection_status c = ''ACTIVE'' \<and>
         (\<forall>j<k. \<not> (\<exists>response c' cs.
            aws_reply w (length (aws_log w) + j) ?cmd = Inr response \<and>
            collectionDetails response = Some (c' # cs) \<and>
            collection_status c' = ''ACTIVE'')))"
  proof (intro allI impI)
    fix c assume "r = Inr c"
    with res obtain k where k: "1 + k \<le> 60"
      and lg: "aws_log w' = aws_log w @ replicate (Suc k) ?cmd"
      and yes: "active_answer (aws_reply w (length (aws_log w) + k) ?cmd) = Some c"
      and no: "\<forall>j<k. active_answer (aws_reply w (length (aws_log w) + j) ?cmd) = None"
      by auto
    from yes obtain response cs where
      "aws_reply w (length (aws_log w) + k) ?cmd = Inr response"
      "collectionDetails response = Some (c # cs)" "collection_status c = ''ACTIVE''"
      unfolding active_answer_Some by blast
    moreover have "k < 60" using k by simp
    ultimately show "\<exists>k<60. aws_log w' = aws_log w @ replicate (Suc k) ?cmd \<and>
         (\<exists>response cs. aws_reply w (length (aws_log w) + k) ?cmd = Inr response \<and>
            collectionDetails response = Some (c # cs)) \<and>
         collection_status c = ''ACTIVE'' \<and>
         (\<forall>j<k. \<not> (\<exists>response c' cs.
            aws_reply w (length (aws_log w) + j) ?cmd = Inr response \<and>
            collectionDetails response = Some (c' # cs) \<and>
            collection_status c' = ''ACTIVE''))"
      using lg no unfolding active_answer_None by blast
  qed
  have 4: "\<forall>err. r = Inl err \<longrightarrow>
      aws_log w' = aws_log w @ replicate 60 ?cmd \<and>
      (\<forall>j<60. \<not> (\<exists>response c' cs.
         aws_reply w (length (aws_log w) + j) ?cmd = Inr response \<and>
         collectionDetails response = Some (c' # cs) \<and>
         collection_status c' = ''ACTIVE''))"
  proof (intro allI impI)
    fix err assume "r = Inl err"
    with res have lg: "aws_log w' = aws_log w @ replicate (Suc 60 - 1) ?cmd"
      and no: "\<forall>j<Suc 60 - 1. active_answer (aws_reply w (length (aws_log w) + j) ?cmd) = None"
      by simp_all
    then show "aws_log w' = aws_log w @ replicate 60 ?cmd \<and>
      (\<forall>j<60. \<not> (\<exists>response c' cs.
         aws_reply w (length (aws_log w) + j) ?cmd = Inr response \<and>
         collectionDetails response = Some (c' # cs) \<and>
         collection_status c' = ''ACTIVE''))"
      unfolding active_answer_None by simp
  qed
  have 5: "a < 60 \<longrightarrow> aws_reply w (length (aws_log w)) ?cmd = Inl e \<longrightarrow>
      waitForCollectionActive_from n 60 a w =
      waitForCollectionActive_from n 60 (Suc a)
        (w\<lparr>aws_log := aws_log w @ [?cmd], slept_ms := slept_ms w + 30000\<rparr>)"
    using thrown_poll_is_retried[of a 60 w n e] by (simp add: cmd)
  from 1 out 3 4 5 show ?thesis
    unfolding R by (simp add: notActiveError_60)
qed

theorem waitForCollectionActive_bounded_witness:
  "aws_reply (sample_world Map.empty no_fault error_then_active) 0
     (batchGetCollectionCommand ''accreda-acme-corp'') =
     Inl (JsError ''TimeoutError'' ''socket hang up'') \<and>
   waitForCollectionActive ''accreda-acme-corp'' 60
     (sample_world Map.empty no_fault error_then_active) =
   (Inr (sample_collection ''ACTIVE''),
    (sample_world Map.empty no_fault error_then_active)
      \<lparr>aws_log := [batchGetCollectionCommand ''accreda-acme-corp'',
                   batchGetCollectionCommand ''accreda-acme-corp''],
       slept_ms := 30000\<rparr>) \<and>
   aws_reply (sample_world Map.empty no_fault error_then_active) 1
     (BatchGetCollectionCommand [''accreda-acme-corp'']) = reply_with ''ACTIVE'' \<and>
   fst (waitForCollectionActive ''accreda-acme-corp'' 60
          (sample_world Map.empty no_fault always_failed)) =
     Inl (Error ''Collection did not become active after 60 attempts'') \<and>
   aws_log (snd (waitForCollectionActive ''accreda-acme-corp'' 60
          (sample_world Map.empty no_fault always_failed))) =
     replicate 60 (BatchGetCollectionCommand [''accreda-acme-corp''])"
proof -
  let ?w = "sample_world Map.empty no_fault error_then_active"
  let ?f = "sample_world Map.empty no_fault always_failed"
  let ?b = "batchGetCollectionCommand ''accreda-acme-corp''"
  let ?q = "BatchGetCollectionCommand [''accreda-acme-corp'']"
  have thrown: "aws_reply ?w (length (aws_log ?w)) ?b =
      Inl (JsError ''TimeoutError'' ''socket hang up'')"
    by (simp add: sample_defs error_then_active_def)
  have "waitForCollectionActive_from ''accreda-acme-corp'' 60 1 ?w =
        waitForCollectionActive_from ''accreda-acme-corp'' 60 (Suc 1)
          (?w\<lparr>aws_log := aws_log ?w @ [?b], slept_ms := slept_ms ?w + 30000\<rparr>)"
    using waitForCollectionActive_bounded
            [where n = "''accreda-acme-corp''" and w = ?w and a = 1
               and e = "JsError ''TimeoutError'' ''socket hang up''"]
      thrown
    by (simp add: batchGetCollectionCommand_def)
  also have "\<dots> = (Inr (sample_collection ''ACTIVE''),
      ?w\<lparr>aws_log := [?b, ?b], slept_ms := 30000\<rparr>)"
    by (simp add: waitForCollectionActive_from.simps aws_defs io_defs sample_defs
          error_then_active_def)
  finally have retried: "waitForCollectionActive_from ''accreda-acme-corp'' 60 1 ?w =
      (Inr (sample_collection ''ACTIVE''), ?w\<lparr>aws_log := [?b, ?b], slept_ms := 30000\<rparr>)" .
  have second: "aws_reply ?w 1 ?q = reply_with ''ACTIVE''"
    by (simp add: sample_world_simps error_then_active_def)
  note failing = waitForCollectionActive_bounded
            [where n = "''accreda-acme-corp''" and w = ?f and a = 1
               and e = "JsError ''TimeoutError'' ''socket hang up''"]
  have never: "\<And>k response c cs. aws_reply ?f k ?q = Inr response \<Longrightarrow>
      collectionDetails response = Some (c # cs) \<Longrightarrow> collection_status c \<noteq> ''ACTIVE''"
    by (auto simp: sample_world_simps always_failed_def reply_with_def sample_collection_def)
  have "\<not> (\<exists>c. fst (waitForCollectionActive ''accreda-acme-corp'' 60 ?f) = Inr c)"
  proof
    assume "\<exists>c. fst (waitForCollectionActive ''accreda-acme-corp'' 60 ?f) = Inr c"
    then obtain c where c: "fst (waitForCollectionActive ''accreda-acme-corp'' 60 ?f) = Inr c" ..
    from failing c obtain k response cs where
      "aws_reply ?f (length (aws_log ?f) + k) ?q = Inr response"
      "collectionDetails response = Some (c # cs)" "collection_status c = ''ACTIVE''"
      by blast
    with never show False by blast
  qed
  with failing have err: "fst (waitForCollectionActive ''accreda-acme-corp'' 60 ?f) =
      Inl (Error ''Collection did not become active after 60 attempts'')"
    by blast
  with failing have "aws_log (snd (waitForCollectionActive ''accreda-acme-corp'' 60 ?f)) =
      aws_log ?f @ replicate 60 ?q"
    by blast
  then have exhausted: "aws_log (snd (waitForCollectionActive ''accreda-acme-corp'' 60 ?f)) =
      replicate 60 ?q"
    by (simp add: sample_world_simps)
  have first: "aws_reply ?w 0 ?b = Inl (JsError ''TimeoutError'' ''socket hang up'')"
    using thrown by (simp add: sample_world_simps)
  have run: "waitForCollectionActive ''accreda-acme-corp'' 60 ?w =
      (Inr (sample_collection ''ACTIVE''), ?w\<lparr>aws_log := [?b, ?b], slept_ms := 30000\<rparr>)"
    using retried by (simp add: waitForCollectionActive_def)
  from first run second err exhausted show ?thesis by (intro conjI)
qed

section \<open>The commit of the ready state\<close>

lemmas db_defs = getClient_def client_query_def client_exec_def release_def query_def

lemma updateTenantOpenSearch_outcome:
  assumes "updateTenantOpenSearch tid a st w = (r, w')"
  shows "case r of
           Inr row \<Rightarrow>
             (\<exists>t. tenants w tid = Some t \<and>
                  row = returning (t\<lparr>opensearch_arn := Some a, opensearch_status := Some st\<rparr>) \<and>
                  tenants w' =
                    (tenants w)(tid \<mapsto> t\<lparr>opensearch_arn := Some a, opensearch_status := Some st\<rparr>))
         | Inl e \<Rightarrow> tenants w' = tenants w"
  using assms
  by (auto simp: updateTenantOpenSearch_def io_defs db_defs Let_def
           split: option.splits list.splits sum.splits if_splits)

text \<open>
  The statements issued. When no client can be taken, nothing else is sent. Otherwise
  \<^verbatim>\<open>BEGIN\<close> is sent first, a return ends with the \<^verbatim>\<open>COMMIT\<close> that follows the update, and
  every throw ends with a \<^verbatim>\<open>ROLLBACK\<close>; no transaction is left open on the client.
\<close>

lemma updateTenantOpenSearch_statements:
  assumes "updateTenantOpenSearch tid a st w = (r, w')"
  shows "(case db_fault w (length (db_log w)) of
            Some e \<Rightarrow> r = Inl e \<and> db_log w' = db_log w @ [Connect]
          | None \<Rightarrow>
              txn w' = None \<and>
              (case r of
                 Inr row \<Rightarrow>
                   db_log w' =
                     db_log w @ [Connect, Begin, UpdateOpenSearch a st tid, Commit]
               | Inl e \<Rightarrow>
                   (\<exists>ss. db_log w' = db_log w @ [Connect, Begin] @ ss @ [Rollback] \<and>
                         (ss = [] \<or> ss = [UpdateOpenSearch a st tid] \<or>
                          ss = [UpdateOpenSearch a st tid, Rollback] \<or>
                          ss = [UpdateOpenSearch a st tid, Commit]))))"
  using assms
  by (auto simp: updateTenantOpenSearch_def io_defs db_defs Let_def
           split: option.splits list.splits sum.splits if_splits)

lemma updateTenantOpenSearch_not_found:
  assumes "tenants w tid = None"
    and "\<forall>i<5. db_fault w (length (db_log w) + i) = None"
  shows "updateTenantOpenSearch tid a st w =
     (Inl (Error ''Tenant not found or update failed''),
      w\<lparr>db_log := db_log w @ [Connect, Begin, UpdateOpenSearch a st tid, Rollback, Rollback],
        txn := None\<rparr>)"
proof -
  have f: "db_fault w (length (db_log w)) = None"
    "db_fault w (Suc (length (db_log w))) = None"
    "db_fault w (Suc (Suc (length (db_log w)))) = None"
    "db_fault w (Suc (Suc (Suc (length (db_log w))))) = None"
    "db_fault w (Suc (Suc (Suc (Suc (length (db_log w)))))) = None"
    using assms(2)[rule_format, of 0] assms(2)[rule_format, of 1] assms(2)[rule_format, of 2]
      assms(2)[rule_format, of 3] assms(2)[rule_format, of 4]
    by (simp_all add: eval_nat_numeral)
  show ?thesis
    by (simp add: updateTenantOpenSearch_def io_defs db_defs Let_def f assms(1))
qed

lemma updateTenantOpenSearch_commits:
  assumes "tenants w tid = Some t"
    and "\<forall>i<4. db_fault w (length (db_log w) + i) = None"
  shows "updateTenantOpenSearch tid a st w =
     (Inr (returning (t\<lparr>opensearch_arn := Some a, opensearch_status := Some st\<rparr>)),
      w\<lparr>db_log := db_log w @ [Connect, Begin, UpdateOpenSearch a st tid, Commit],
        tenants := (tenants w)(tid \<mapsto> t\<lparr>opensearch_arn := Some a, opensearch_status := Some st\<rparr>),
        txn := None\<rparr>)"
proof -
  have f: "db_fault w (length (db_log w)) = None"
    "db_fault w (Suc (length (db_log w))) = None"
    "db_fault w (Suc (Suc (length (db_log w)))) = None"
    "db_fault w (Suc (Suc (Suc (length (db_log w))))) = None"
    using assms(2)[rule_format, of 0] assms(2)[rule_format, of 1] assms(2)[rule_format, of 2]
      assms(2)[rule_format, of 3]
    by (simp_all add: eval_nat_numeral)
  show ?thesis
    by (simp add: updateTenantOpenSearch_def io_defs db_defs Let_def f assms(1))
qed

text \<open>
  Claim C6: \<open>updateTenantOpenSearch\<close> has two outcomes, whatever calls to the database
  fail. Either it returns the updated row, and then the row existed and the table holds
  it with the new reference and status; or it throws, and then the table is what it was
  before the call. Once the client is taken, \<^verbatim>\<open>BEGIN\<close> is the first statement sent, a
  return ends with the \<^verbatim>\<open>COMMIT\<close> that follows the update, every throw ends with a
  \<^verbatim>\<open>ROLLBACK\<close> (after the \<^verbatim>\<open>BEGIN\<close>, the update, the rollback of the not-found branch or
  the \<^verbatim>\<open>COMMIT\<close>, whichever was reached), and no transaction stays open; when no client
  can be taken, that error is thrown and nothing else is sent. When no call fails, an
  update that matches no row is rolled back and raises the error "Tenant not found or
  update failed", and an existing row is updated between \<^verbatim>\<open>BEGIN\<close> and \<^verbatim>\<open>COMMIT\<close>.
\<close>

theorem updateTenantOpenSearch_transactional:
  "(case updateTenantOpenSearch tid a st w of
      (Inr row, w') \<Rightarrow>
        (\<exists>t. tenants w tid = Some t \<and>
             row = returning (t\<lparr>opensearch_arn := Some a, opensearch_status := Some st\<rparr>) \<and>
             tenants w' =
               (tenants w)(tid \<mapsto> t\<lparr>opensearch_arn := Some a, opensearch_status := Some st\<rparr>))
    | (Inl e, w') \<Rightarrow> tenants w' = tenants w) \<and>
   (db_fault w (length (db_log w)) = None \<longrightarrow>
      (case updateTenantOpenSearch tid a st w of
         (Inr row, w') \<Rightarrow>
           db_log w' = db_log w @ [Connect, Begin, UpdateOpenSearch a st tid, Commit] \<and>
           txn w' = None
       | (Inl e, w') \<Rightarrow>
           (\<exists>ss. db_log w' = db_log w @ [Connect, Begin] @ ss @ [Rollback] \<and>
                 (ss = [] \<or> ss = [UpdateOpenSearch a st tid] \<or>
                  ss = [UpdateOpenSearch a st tid, Rollback] \<or>
                  ss = [UpdateOpenSearch a st tid, Commit])) \<and>
           txn w' = None)) \<and>
   (db_fault w (length (db_log w)) = Some e0 \<longrightarrow>
      updateTenantOpenSearch tid a st w = (Inl e0, w\<lparr>db_log := db_log w @ [Connect]\<rparr>)) \<and>
   (tenants w tid = None \<longrightarrow> (\<forall>i<5. db_fault w (length (db_log w) + i) = None) \<longrightarrow>
      updateTenantOpenSearch tid a st w =
        (Inl (Error ''Tenant not found or update failed''),
         w\<lparr>db_log := db_log w @
              [Connect, Begin, UpdateOpenSearch a st tid, Rollback, Rollback],
           txn := None\<rparr>)) \<and>
   (tenants w tid = Some t \<longrightarrow> (\<forall>i<4. db_fault w (length (db_log w) + i) = None) \<longrightarrow>
      updateTenantOpenSearch tid a st w =
        (Inr (returning (t\<lparr>opensearch_arn := Some a, opensearch_status := Some st\<rparr>)),
         w\<lparr>db_log := db_log w @ [Connect, Begin, UpdateOpenSearch a st tid, Commit],
           tenants := (tenants w)(tid \<mapsto>
              t\<lparr>opensearch_arn := Some a, opensearch_status := Some st\<rparr>),
           txn := None\<rparr>))"
proof -
  obtain r w' where run: "updateTenantOpenSearch tid a st w = (r, w')"
    by (cases "updateTenantOpenSearch tid a st w")
  have 1: "case updateTenantOpenSearch tid a st w of
      (Inr row, w') \<Rightarrow>
        (\<exists>t. tenants w tid = Some t \<and>
             row = returning (t\<lparr>opensearch_arn := Some a, opensearch_status := Some st\<rparr>) \<and>
             tenants w' =
               (tenants w)(tid \<mapsto> t\<lparr>opensearch_arn := Some a, opensearch_status := Some st\<rparr>))
    | (Inl e, w') \<Rightarrow> tenants w' = tenants w"
    using updateTenantOpenSearch_outcome[OF run] run by (cases r) simp_all
  have 2: "db_fault w (length (db_log w)) = None \<Longrightarrow>
      (case updateTenantOpenSearch tid a st w of
         (Inr row, w') \<Rightarrow>
           db_log w' = db_log w @ [Connect, Begin, UpdateOpenSearch a st tid, Commit] \<and>
           txn w' = None
       | (Inl e, w') \<Rightarrow>
           (\<exists>ss. db_log w' = db_log w @ [Connect, Begin] @ ss @ [Rollback] \<and>
                 (ss = [] \<or> ss = [UpdateOpenSearch a st tid] \<or>
                  ss = [UpdateOpenSearch a st tid, Rollback] \<or>
                  ss = [UpdateOpenSearch a st tid, Commit])) \<and>
           txn w' = None)"
    using updateTenantOpenSearch_statements[OF run] run by (cases r) simp_all
  have 3: "db_fault w (length (db_log w)) = Some e0 \<Longrightarrow>
      updateTenantOpenSearch tid a st w = (Inl e0, w\<lparr>db_log := db_log w @ [Connect]\<rparr>)"
    by (simp add: updateTenantOpenSearch_def io_defs db_defs Let_def)
  from 1 2 3 updateTenantOpenSearch_not_found[of w tid a st]
    updateTenantOpenSearch_commits[of w tid t a st]
  show ?thesis by blast
qed

text \<open>
  An update that matches no row; the update of an existing row; and a \<^verbatim>\<open>COMMIT\<close> that
  fails, after which a \<^verbatim>\<open>ROLLBACK\<close> is sent and the table is what it was.
\<close>

theorem updateTenantOpenSearch_transactional_witness:
  "tenants (sample_world Map.empty no_fault always_active) (JStr sample_uuid) = None \<and>
   updateTenantOpenSearch (JStr sample_uuid) sample_arn ''ready''
     (sample_world Map.empty no_fault always_active) =
   (Inl (Error ''Tenant not found or update failed''),
    (sample_world Map.empty no_fault always_active)
      \<lparr>db_log := [Connect, Begin, UpdateOpenSearch sample_arn ''ready'' (JStr sample_uuid),
                  Rollback, Rollback]\<rparr>) \<and>
   updateTenantOpenSearch (JStr sample_uuid) sample_arn ''ready''
     (sample_world (table_with (acme None (Some ''pending''))) no_fault always_active) =
   (Inr \<lparr>updated_id = sample_uuid, updated_slug = ''acme'', updated_name = ''Acme Corp'',
         updated_opensearch_arn = Some sample_arn,
         updated_opensearch_status = Some ''ready''\<rparr>,
    (sample_world (table_with (acme None (Some ''pending''))) no_fault always_active)
      \<lparr>db_log := [Connect, Begin, UpdateOpenSearch sample_arn ''ready'' (JStr sample_uuid),
                  Commit],
       tenants := table_with (acme (Some sample_arn) (Some ''ready''))\<rparr>) \<and>
   fst (updateTenantOpenSearch (JStr sample_uuid) sample_arn ''ready''
     (sample_world (table_with (acme None (Some ''pending''))) (fault_at 3) always_active)) =
     Inl timeout \<and>
   db_log (snd (updateTenantOpenSearch (JStr sample_uuid) sample_arn ''ready''
     (sample_world (table_with (acme None (Some ''pending''))) (fault_at 3) always_active))) =
     [Connect, Begin, UpdateOpenSearch sample_arn ''ready'' (JStr sample_uuid), Commit,
      Rollback] \<and>
   tenants (snd (updateTenantOpenSearch (JStr sample_uuid) sample_arn ''ready''
     (sample_world (table_with (acme None (Some ''pending''))) (fault_at 3) always_active))) =
     table_with (acme None (Some ''pending''))"
proof -
  let ?w0 = "sample_world Map.empty no_fault always_active"
  let ?w1 = "sample_world (table_with (acme None (Some ''pending''))) no_fault always_active"
  let ?w2 = "sample_world (table_with (acme None (Some ''pending''))) (fault_at 3) always_active"
  let ?k = "JStr sample_uuid"
  note inst0 = updateTenantOpenSearch_transactional
                 [where tid = ?k and a = sample_arn and st = "''ready''" and w = ?w0
                    and t = "acme None (Some ''pending'')"]
  note inst1 = updateTenantOpenSearch_transactional
                 [where tid = ?k and a = sample_arn and st = "''ready''" and w = ?w1
                    and t = "acme None (Some ''pending'')"]
  note inst2 = updateTenantOpenSearch_transactional
                 [where tid = ?k and a = sample_arn and st = "''ready''" and w = ?w2
                    and t = "acme None (Some ''pending'')"]
  have absent: "tenants ?w0 ?k = None" by (simp add: sample_world_simps)
  have quiet0: "\<forall>i<5. db_fault ?w0 (length (db_log ?w0) + i) = None"
    and quiet1: "\<forall>i<4. db_fault ?w1 (length (db_log ?w1) + i) = None"
    by (simp_all add: sample_world_simps no_fault_def)
  have present: "tenants ?w1 ?k = Some (acme None (Some ''pending''))"
    by (simp add: sample_world_simps table_with_simps)
  have a: "updateTenantOpenSearch ?k sample_arn ''ready'' ?w0 =
      (Inl (Error ''Tenant not found or update failed''),
       ?w0\<lparr>db_log := [Connect, Begin, UpdateOpenSearch sample_arn ''ready'' ?k,
                        Rollback, Rollback]\<rparr>)"
    using inst0 absent quiet0 by (simp add: sample_world_def)
  have b: "updateTenantOpenSearch ?k sample_arn ''ready'' ?w1 =
      (Inr (returning (acme (Some sample_arn) (Some ''ready''))),
       ?w1\<lparr>db_log := [Connect, Begin, UpdateOpenSearch sample_arn ''ready'' ?k, Commit],
          tenants := table_with (acme (Some sample_arn) (Some ''ready''))\<rparr>)"
    using inst1 present quiet1 by (simp add: sample_world_def acme_simps table_with_simps)
  have c: "fst (updateTenantOpenSearch ?k sample_arn ''ready'' ?w2) = Inl timeout"
    and l: "db_log (snd (updateTenantOpenSearch ?k sample_arn ''ready'' ?w2)) =
      [Connect, Begin, UpdateOpenSearch sample_arn ''ready'' ?k, Commit, Rollback]"
    by (simp_all add: updateTenantOpenSearch_def io_defs db_defs Let_def sample_world_def
          fault_at_def table_with_simps)
  have d: "tenants (snd (updateTenantOpenSearch ?k sample_arn ''ready'' ?w2)) = tenants ?w2"
    using inst2 c by (cases "updateTenantOpenSearch ?k sample_arn ''ready'' ?w2") auto
  from absent a b c l d show ?thesis
    by (simp add: sample_world_simps returning_def acme_def)
qed

section \<open>Frame rules\<close>

text \<open>
  A relation that is reflexive and transitive and is kept by every external call of a
  function is kept by the function: the rules follow the structure of the code.
\<close>

lemma preorder_refl: "preorder_rel R \<Longrightarrow> R w w"
  by (simp add: preorder_rel_def)

lemma preorder_trans: "preorder_rel R \<Longrightarrow> R a b \<Longrightarrow> R b c \<Longrightarrow> R a c"
  unfolding preorder_rel_def by blast

lemma keepsD: "keeps R m \<Longrightarrow> R w (snd (m w))"
  by (simp add: keeps_def)

lemma keeps_mono: "keeps R m \<Longrightarrow> (\<And>w w'. R w w' \<Longrightarrow> S w w') \<Longrightarrow> keeps S m"
  by (simp add: keeps_def)

lemma keeps_return: "preorder_rel R \<Longrightarrow> keeps R (io_return x)"
  by (simp add: keeps_def preorder_rel_def io_return_def)

lemma keeps_throw: "preorder_rel R \<Longrightarrow> keeps R (io_throw e)"
  by (simp add: keeps_def preorder_rel_def io_throw_def)

lemma keeps_lift: "preorder_rel R \<Longrightarrow> keeps R (io_lift r)"
  by (simp add: keeps_def preorder_rel_def io_lift_def)

lemma keeps_bind:
  assumes "preorder_rel R" "keeps R m" "\<And>x. keeps R (f x)"
  shows "keeps R (io_bind m f)"
  unfolding keeps_def
proof
  fix w
  obtain r w1 where m: "m w = (r, w1)" by (cases "m w")
  have 1: "R w w1" using keepsD[OF assms(2), of w] m by simp
  show "R w (snd (io_bind m f w))"
  proof (cases r)
    case (Inl e)
    then show ?thesis using m 1 by (simp add: io_bind_def)
  next
    case (Inr x)
    have "R w1 (snd (f x w1))" using keepsD[OF assms(3)] .
    with 1 assms(1) have "R w (snd (f x w1))" unfolding preorder_rel_def by blast
    then show ?thesis using m Inr by (simp add: io_bind_def)
  qed
qed

lemma keeps_catch:
  assumes "preorder_rel R" "keeps R m" "\<And>e. keeps R (h e)"
  shows "keeps R (io_catch m h)"
  unfolding keeps_def
proof
  fix w
  obtain r w1 where m: "m w = (r, w1)" by (cases "m w")
  have 1: "R w w1" using keepsD[OF assms(2), of w] m by simp
  show "R w (snd (io_catch m h w))"
  proof (cases r)
    case (Inr x)
    then show ?thesis using m 1 by (simp add: io_catch_def)
  next
    case (Inl e)
    have "R w1 (snd (h e w1))" using keepsD[OF assms(3)] .
    with 1 assms(1) have "R w (snd (h e w1))" unfolding preorder_rel_def by blast
    then show ?thesis using m Inl by (simp add: io_catch_def)
  qed
qed

lemma keeps_finally:
  assumes "preorder_rel R" "keeps R m" "\<And>w. R w (fin w)"
  shows "keeps R (io_finally m fin)"
  unfolding keeps_def
proof
  fix w
  obtain r w1 where m: "m w = (r, w1)" by (cases "m w")
  have "R w w1" using keepsD[OF assms(2), of w] m by simp
  with assms(3)[of w1] assms(1) have "R w (fin w1)" unfolding preorder_rel_def by blast
  then show "R w (snd (io_finally m fin w))" using m by (simp add: io_finally_def)
qed

lemma keeps_if: "keeps R a \<Longrightarrow> keeps R b \<Longrightarrow> keeps R (if c then a else b)"
  by simp

lemma createEncryptionPolicy_keeps:
  assumes "preorder_rel R" "keeps R (send (encryptionPolicyCommand n))"
  shows "keeps R (createEncryptionPolicy n)"
  unfolding createEncryptionPolicy_def
  by (intro keeps_catch keeps_bind keeps_if keeps_return keeps_throw assms)

lemma createNetworkPolicy_keeps:
  assumes "preorder_rel R" "keeps R (send (networkPolicyCommand n))"
  shows "keeps R (createNetworkPolicy n)"
  unfolding createNetworkPolicy_def
  by (intro keeps_catch keeps_bind keeps_if keeps_return keeps_throw assms)

lemma createDataAccessPolicy_keeps:
  assumes pre: "preorder_rel R"
    and snd: "\<And>tx. ToString tid = Inr tx \<Longrightarrow> keeps R (send (dataAccessPolicyCommand n tx))"
  shows "keeps R (createDataAccessPolicy n tid)"
proof (cases "ToString tid")
  case (Inl e)
  then show ?thesis using pre
    by (simp add: createDataAccessPolicy_def keeps_def io_defs preorder_rel_def)
next
  case (Inr tx)
  have "keeps R (io_catch (io_bind (io_lift (Inr tx)) (\<lambda>tenantIdText.
        io_bind (send (dataAccessPolicyCommand n tx)) (\<lambda>_. io_return ())))
       (\<lambda>error. if error_name error = ''ConflictException'' then io_return ()
                 else io_throw error))"
    by (intro keeps_catch keeps_bind keeps_if keeps_return keeps_throw keeps_lift pre snd Inr)
  moreover have "createDataAccessPolicy n tid = io_catch (io_bind (io_lift (Inr tx)) (\<lambda>tenantIdText.
        io_bind (send (dataAccessPolicyCommand n tx)) (\<lambda>_. io_return ())))
       (\<lambda>error. if error_name error = ''ConflictException'' then io_return ()
                 else io_throw error)"
    by (simp add: createDataAccessPolicy_def Inr io_laws)
  ultimately show ?thesis by simp
qed

lemma poll_attempt_keeps:
  assumes pre: "preorder_rel R"
    and snd: "keeps R (send (batchGetCollectionCommand n))"
    and slp: "\<And>ms. keeps R (sleep ms)"
  shows "keeps R (poll_attempt n)"
  unfolding poll_attempt_def
  apply (intro keeps_bind pre snd)
  apply (auto split: option.splits list.splits intro!: keeps_bind keeps_return keeps_throw pre slp)
  done

lemma wait_from_keeps:
  assumes pre: "preorder_rel R"
    and slp: "\<And>ms. keeps R (sleep ms)"
  shows "keeps R (send (batchGetCollectionCommand n)) \<Longrightarrow>
         R w (snd (waitForCollectionActive_from n mx a w))"
proof (induction n mx a w rule: waitForCollectionActive_from.induct)
  case (1 n mx a w)
  have refl: "\<And>w. R w w" and trans: "\<And>a b c. R a b \<Longrightarrow> R b c \<Longrightarrow> R a c"
    using pre unfolding preorder_rel_def by blast+
  show ?case
  proof (cases "a \<le> mx")
    case False
    then show ?thesis by (simp add: wait_from_done refl)
  next
    case True
    obtain r w1 where p: "poll_attempt n w = (r, w1)" by (cases "poll_attempt n w")
    note unf = wait_from_step[OF True p]
    have step: "R w w1"
      using keepsD[OF poll_attempt_keeps[OF pre "1.prems" slp], of w] p by simp
    show ?thesis
    proof (cases r)
      case (Inr found)
      show ?thesis
      proof (cases found)
        case None
        have "R w1 (snd (waitForCollectionActive_from n mx (Suc a) w1))"
          using "1.IH"(2)[OF True p[symmetric] Inr None "1.prems"] .
        with step have "R w (snd (waitForCollectionActive_from n mx (Suc a) w1))"
          by (rule trans)
        then show ?thesis by (simp add: unf Inr None)
      next
        case (Some c)
        then show ?thesis using step by (simp add: unf Inr)
      qed
    next
      case (Inl e)
      show ?thesis
      proof (cases "a = mx")
        case True
        show ?thesis unfolding unf Inl using True step by simp
      next
        case False
        have s1: "R w1 (snd (sleep 30000 w1))" using keepsD[OF slp] .
        have "R (snd (sleep 30000 w1))
                (snd (waitForCollectionActive_from n mx (Suc a) (snd (sleep 30000 w1))))"
          using "1.IH"(1)[OF True p[symmetric] Inl False "1.prems"] .
        with step s1
        have "R w (snd (waitForCollectionActive_from n mx (Suc a) (snd (sleep 30000 w1))))"
          using trans by blast
        then show ?thesis by (simp add: unf Inl False)
      qed
    qed
  qed
qed

lemma waitForCollectionActive_keeps:
  assumes "preorder_rel R" "\<And>ms. keeps R (sleep ms)"
    "keeps R (send (batchGetCollectionCommand n))"
  shows "keeps R (waitForCollectionActive n mx)"
  using wait_from_keeps[OF assms] by (simp add: keeps_def waitForCollectionActive_def)

lemma createCollection_split:
  assumes pre: "preorder_rel R"
    and slp: "\<And>ms. keeps R (sleep ms)"
    and snd: "\<And>c. c \<in> provisioningCommands tid sl \<Longrightarrow> keeps R (send c)"
  shows "\<exists>rest. keeps R rest \<and>
           createCollection tid sl =
             io_catch (io_bind (createEncryptionPolicy (getCollectionName sl)) (\<lambda>_. rest))
               (\<lambda>error. io_throw error)"
proof -
  let ?n = "getCollectionName sl"
  have net: "keeps R (createNetworkPolicy ?n)"
    by (rule createNetworkPolicy_keeps[OF pre]) (rule snd, simp add: provisioningCommands_def Let_def)
  have dat: "keeps R (createDataAccessPolicy ?n tid)"
    by (rule createDataAccessPolicy_keeps[OF pre]) (rule snd, simp add: provisioningCommands_def Let_def)
  have wt: "keeps R (waitForCollectionActive ?n 60)"
    by (rule waitForCollectionActive_keeps[OF pre slp]) (rule snd, simp add: provisioningCommands_def Let_def)
  show ?thesis
  proof (cases "ToString tid")
    case (Inl e)
    let ?rest = "io_bind (io_catch (createNetworkPolicy ?n) (\<lambda>networkError. io_throw networkError))
                   (\<lambda>_. io_throw e) :: provisioned io"
    have "createCollection tid sl =
       io_catch (io_bind (createEncryptionPolicy ?n) (\<lambda>_. ?rest)) (\<lambda>error. io_throw error)"
      by (simp add: createCollection_def Let_def Inl io_laws)
    moreover have "keeps R ?rest"
      by (intro keeps_catch keeps_bind keeps_throw pre net)
    ultimately show ?thesis by blast
  next
    case (Inr tx)
    have cc: "keeps R (send (createCollectionCommand ?n tid tx sl))"
      by (rule snd) (simp add: provisioningCommands_def Let_def Inr)
    let ?rest = "io_bind (io_catch (createNetworkPolicy ?n) (\<lambda>networkError. io_throw networkError)) (\<lambda>_.
         io_bind (send (createCollectionCommand ?n tid tx sl)) (\<lambda>createResponse.
         io_bind (case createCollectionDetail createResponse of
                    None \<Rightarrow> io_throw missingDetailError
                  | Some detail \<Rightarrow> io_return ()) (\<lambda>_.
         io_bind (createDataAccessPolicy ?n tid) (\<lambda>_.
         io_bind (waitForCollectionActive ?n 60) (\<lambda>collection.
           io_return \<lparr>provisioned_arn = arn collection,
                      provisioned_endpoint = collectionEndpoint collection,
                      provisioned_name = ?n,
                      provisioned_status = collection_status collection\<rparr>)))))"
    have "createCollection tid sl =
       io_catch (io_bind (createEncryptionPolicy ?n) (\<lambda>_. ?rest)) (\<lambda>error. io_throw error)"
      by (simp add: createCollection_def Let_def Inr io_laws)
    moreover have "keeps R ?rest"
      by (intro keeps_catch keeps_bind keeps_throw keeps_return pre net cc dat wt)
         (auto split: option.splits intro: keeps_throw keeps_return pre)
    ultimately show ?thesis by blast
  qed
qed

lemma createCollection_keeps:
  assumes pre: "preorder_rel R"
    and slp: "\<And>ms. keeps R (sleep ms)"
    and snd: "\<And>c. c \<in> provisioningCommands tid sl \<Longrightarrow> keeps R (send c)"
  shows "keeps R (createCollection tid sl)"
proof -
  from createCollection_split[OF assms]
  obtain rest where rest: "keeps R rest"
    and eq: "createCollection tid sl =
             io_catch (io_bind (createEncryptionPolicy (getCollectionName sl)) (\<lambda>_. rest))
               (\<lambda>error. io_throw error)"
    by blast
  have enc: "keeps R (createEncryptionPolicy (getCollectionName sl))"
    by (rule createEncryptionPolicy_keeps[OF pre])
       (rule snd, simp add: provisioningCommands_def Let_def)
  show ?thesis unfolding eq
    by (intro keeps_catch keeps_bind keeps_throw pre enc rest)
qed

section \<open>The record store and the orchestrator, case by case\<close>

lemma outside_db_same_preorder: "preorder_rel outside_db_same"
  by (simp add: preorder_rel_def outside_db_same_def)

lemma outside_aws_same_preorder: "preorder_rel outside_aws_same"
  by (simp add: preorder_rel_def outside_aws_same_def)

lemma getTenant_eq:
  "getTenant tid w =
     (case db_fault w (length (db_log w)) of
        Some e \<Rightarrow> (Inl e, w\<lparr>db_log := db_log w @ [Select tid]\<rparr>)
      | None \<Rightarrow> (Inr (tenants w tid), w\<lparr>db_log := db_log w @ [Select tid]\<rparr>))"
  by (simp add: getTenant_def query_def io_defs Let_def split: option.splits)

lemma markFailed_eq:
  "markTenantOpenSearchFailed tid msg w =
     (Inr (),
      (case db_fault w (length (db_log w)) of
         Some e \<Rightarrow> w\<lparr>db_log := db_log w @ [UpdateStatus ''failed'' tid]\<rparr>
       | None \<Rightarrow>
           (case tenants w tid of
              None \<Rightarrow> w\<lparr>db_log := db_log w @ [UpdateStatus ''failed'' tid]\<rparr>
            | Some t \<Rightarrow>
                w\<lparr>db_log := db_log w @ [UpdateStatus ''failed'' tid],
                  tenants := (tenants w)(tid \<mapsto> t\<lparr>opensearch_status := Some ''failed''\<rparr>)\<rparr>)))"
  by (simp add: markTenantOpenSearchFailed_def query_def io_defs Let_def split: option.splits)

lemma getTenant_outside: "keeps outside_db_same (getTenant tid)"
  by (simp add: keeps_def getTenant_eq outside_db_same_def split: option.splits)

lemma markFailed_outside: "keeps outside_db_same (markTenantOpenSearchFailed tid msg)"
  by (simp add: keeps_def markFailed_eq outside_db_same_def split: option.splits)

lemma updateTenantOpenSearch_outside: "keeps outside_db_same (updateTenantOpenSearch tid a st)"
  unfolding keeps_def outside_db_same_def
  by (auto simp: updateTenantOpenSearch_def io_defs db_defs Let_def
           split: option.splits list.splits sum.splits if_splits)

lemma send_outside: "keeps outside_aws_same (send c)"
  by (simp add: keeps_def send_def outside_aws_same_def)

lemma sleep_outside: "keeps outside_aws_same (sleep ms)"
  by (simp add: keeps_def sleep_def outside_aws_same_def)

lemma createCollection_outside: "keeps outside_aws_same (createCollection tid sl)"
  by (rule createCollection_keeps[OF outside_aws_same_preorder sleep_outside send_outside])

lemma markFailed_then_rethrow:
  "io_bind (io_catch (markTenantOpenSearchFailed tid msg) h) (\<lambda>_. io_throw e) w =
     (Inl e, snd (markTenantOpenSearchFailed tid msg w))"
  by (simp add: io_defs markFailed_eq)

lemma processTenantMessage_fetch_fault:
  assumes "\<not> nullish body" "db_fault w (length (db_log w)) = Some e"
  shows "processTenantMessage body w =
     (Inl e, snd (markTenantOpenSearchFailed (field body ''tenant_id'') (error_message e)
                    (w\<lparr>db_log := db_log w @ [Select (field body ''tenant_id'')]\<rparr>)))"
  using assms
  by (simp add: processTenantMessage_def Let_def io_catch_def io_bind_def[of "getTenant _"]
        getTenant_eq markFailed_then_rethrow)

lemma processTenantMessage_rejected:
  assumes "\<not> nullish body" "db_fault w (length (db_log w)) = None"
    and "\<not> isValid (validateTenantForProvisioning (tenants w (field body ''tenant_id'')))"
  shows "processTenantMessage body w =
     (Inr (), w\<lparr>db_log := db_log w @ [Select (field body ''tenant_id'')]\<rparr>)"
  using assms
  by (simp add: processTenantMessage_def Let_def io_catch_def io_bind_def[of "getTenant _"]
        getTenant_eq io_return_def)

lemma processTenantMessage_eligible:
  assumes "\<not> nullish body" "db_fault w (length (db_log w)) = None"
    and "tenants w (field body ''tenant_id'') = Some t"
    and "isValid (validateTenantForProvisioning (Some t))"
  shows "processTenantMessage body w =
     (case createCollection (field body ''tenant_id'') (slug t)
             (w\<lparr>db_log := db_log w @ [Select (field body ''tenant_id'')]\<rparr>) of
        (Inl e, w2) \<Rightarrow>
          (Inl e, snd (markTenantOpenSearchFailed (field body ''tenant_id'') (error_message e) w2))
      | (Inr c, w2) \<Rightarrow>
          (case updateTenantOpenSearch (field body ''tenant_id'') (provisioned_arn c) ''ready'' w2 of
             (Inl e, w3) \<Rightarrow>
               (Inl e, snd (markTenantOpenSearchFailed (field body ''tenant_id'')
                              (error_message e) w3))
           | (Inr row, w3) \<Rightarrow> (Inr (), w3)))"
  using assms
  by (simp add: processTenantMessage_def Let_def io_catch_def io_bind_def
        getTenant_eq markFailed_eq io_return_def io_throw_def split: prod.splits sum.splits)

lemma createCollection_denied:
  assumes "aws_reply w = access_denied"
  shows "createCollection tid sl w =
     (Inl denied, w\<lparr>aws_log := aws_log w @ [encryptionPolicyCommand (getCollectionName sl)]\<rparr>)"
  using assms
  by (simp add: createCollection_def createEncryptionPolicy_def Let_def io_defs send_def
        access_denied_def denied_def)

lemma createCollection_active:
  assumes "aws_reply w = always_active"
  shows "createCollection (JStr u) sl w =
     (Inr \<lparr>provisioned_arn = sample_arn,
           provisioned_endpoint = ''https://abc123.us-east-1.aoss.amazonaws.com'',
           provisioned_name = getCollectionName sl,
           provisioned_status = ''ACTIVE''\<rparr>,
      w\<lparr>aws_log := aws_log w @
           [encryptionPolicyCommand (getCollectionName sl),
            networkPolicyCommand (getCollectionName sl),
            createCollectionCommand (getCollectionName sl) (JStr u) u sl,
            dataAccessPolicyCommand (getCollectionName sl) u,
            batchGetCollectionCommand (getCollectionName sl)]\<rparr>)"
  using assms
  by (simp add: createCollection_def createEncryptionPolicy_def createNetworkPolicy_def
        createDataAccessPolicy_def waitForCollectionActive_def
        waitForCollectionActive_from.simps poll_attempt_def Let_def io_defs send_def
        always_active_def reply_with_def sample_collection_def sample_arn_def)

section \<open>What the handler and the loop leave alone\<close>

lemma queue_same_preorder: "preorder_rel queue_same"
  by (simp add: preorder_rel_def queue_same_def)

lemma sends_only_preorder: "preorder_rel (sends_only A)"
  unfolding preorder_rel_def sends_only_def
  by (intro conjI allI impI; clarsimp)

lemma status_step_refl: "status_step t t"
  by (simp add: status_step_def)

lemma status_step_trans: "status_step a b \<Longrightarrow> status_step b c \<Longrightarrow> status_step a c"
  by (auto simp: status_step_def)

lemma status_monotone_preorder: "preorder_rel status_monotone"
  unfolding preorder_rel_def status_monotone_def
proof (intro conjI allI impI)
  fix w k
  show "case tenants w k of None \<Rightarrow> tenants w k = None
        | Some t \<Rightarrow> (case tenants w k of None \<Rightarrow> False | Some t' \<Rightarrow> status_step t t')"
    by (simp add: status_step_refl split: option.splits)
next
  fix a b c k
  assume ab: "\<forall>k. case tenants a k of None \<Rightarrow> tenants b k = None
        | Some t \<Rightarrow> (case tenants b k of None \<Rightarrow> False | Some t' \<Rightarrow> status_step t t')"
    and bc: "\<forall>k. case tenants b k of None \<Rightarrow> tenants c k = None
        | Some t \<Rightarrow> (case tenants c k of None \<Rightarrow> False | Some t' \<Rightarrow> status_step t t')"
  show "case tenants a k of None \<Rightarrow> tenants c k = None
        | Some t \<Rightarrow> (case tenants c k of None \<Rightarrow> False | Some t' \<Rightarrow> status_step t t')"
    using ab[rule_format, of k] bc[rule_format, of k]
    by (auto split: option.splits intro: status_step_trans)
qed

lemma same_tenants_monotone: "tenants w' = tenants w \<Longrightarrow> status_monotone w w'"
  by (simp add: status_monotone_def status_step_refl split: option.splits)

lemma processTenantMessage_keeps:
  assumes pre: "preorder_rel R"
    and get: "\<And>tid. keeps R (getTenant tid)"
    and cre: "\<And>tid sl. keeps R (createCollection tid sl)"
    and upd: "\<And>tid a. keeps R (updateTenantOpenSearch tid a ''ready'')"
    and mrk: "\<And>tid msg. keeps R (markTenantOpenSearchFailed tid msg)"
  shows "keeps R (processTenantMessage body)"
  unfolding processTenantMessage_def Let_def
  apply (intro keeps_if keeps_throw keeps_catch keeps_bind keeps_return pre get mrk)
  apply (auto split: option.splits intro!: keeps_throw keeps_bind keeps_return pre cre upd)
  done

lemma startPolling_message_keeps:
  assumes pre: "preorder_rel R"
    and han: "\<And>b. keeps R (h b)"
    and del: "\<And>rh. keeps R (deleteMessage rh)"
  shows "R w (startPolling_message h m w)"
proof -
  have "keeps R (io_catch
            (io_bind (io_lift (Body m)) (\<lambda>messageBody.
             io_bind (if nullish messageBody
                      then io_throw (TypeError ''Cannot read properties of null'')
                      else io_return ()) (\<lambda>_.
             io_bind (io_lift (validateMessage messageBody)) (\<lambda>valid.
               if \<not> valid then deleteMessage (ReceiptHandle m)
               else io_bind (h messageBody) (\<lambda>_.
                      deleteMessage (ReceiptHandle m))))))
            (\<lambda>error. io_return ()))"
    by (intro keeps_catch keeps_bind keeps_lift keeps_if keeps_throw keeps_return pre han del)
  from keepsD[OF this, of w] show ?thesis
    by (simp add: startPolling_message_def)
qed

lemma fold_keeps:
  assumes pre: "preorder_rel R" and step: "\<And>x w. R w (f x w)"
  shows "R w (fold f xs w)"
proof (induction xs arbitrary: w)
  case Nil
  then show ?case using pre by (simp add: preorder_rel_def)
next
  case (Cons x xs)
  have "R w (f x w)" by (rule step)
  moreover have "R (f x w) (fold f xs (f x w))" by (rule Cons.IH)
  ultimately show ?case using preorder_trans[OF pre] by simp
qed

lemma startPolling_turn_keeps:
  assumes pre: "preorder_rel R"
    and han: "\<And>b. keeps R (h b)"
    and del: "\<And>rh. keeps R (deleteMessage rh)"
    and rcv: "keeps R receiveMessages"
    and slp: "\<And>ms. keeps R (sleep ms)"
  shows "R w (startPolling_turn h w)"
proof -
  obtain r w1 where r: "receiveMessages w = (r, w1)" by (cases "receiveMessages w")
  have 1: "R w w1" using keepsD[OF rcv, of w] r by simp
  have trans: "\<And>a b c. R a b \<Longrightarrow> R b c \<Longrightarrow> R a c"
    using pre unfolding preorder_rel_def by blast
  show ?thesis
  proof (cases r)
    case (Inl e)
    have "R w1 (snd (sleep 5000 w1))" using keepsD[OF slp] .
    with 1 show ?thesis using r Inl trans[of w w1] by (simp add: startPolling_turn_def)
  next
    case (Inr msgs)
    have "R w1 (fold (startPolling_message h) msgs w1)"
      by (rule fold_keeps[OF pre]) (rule startPolling_message_keeps[OF pre han del])
    with 1 show ?thesis using r Inr trans[of w w1] by (simp add: startPolling_turn_def)
  qed
qed

lemma startPolling_keeps:
  assumes pre: "preorder_rel R"
    and han: "\<And>b. keeps R (h b)"
    and del: "\<And>rh. keeps R (deleteMessage rh)"
    and rcv: "keeps R receiveMessages"
    and slp: "\<And>ms. keeps R (sleep ms)"
  shows "R w (startPolling h turns w)"
proof (induction turns arbitrary: w)
  case 0
  then show ?case using pre by (simp add: preorder_rel_def)
next
  case (Suc turns)
  have "R w (startPolling_turn h w)" by (rule startPolling_turn_keeps[OF assms])
  moreover have "R (startPolling_turn h w) (startPolling h turns (startPolling_turn h w))"
    by (rule Suc.IH)
  ultimately show ?case using preorder_trans[OF pre] by simp
qed

lemma outside_db_queue: "outside_db_same w w' \<Longrightarrow> queue_same w w'"
  by (simp add: outside_db_same_def queue_same_def)

lemma outside_aws_queue: "outside_aws_same w w' \<Longrightarrow> queue_same w w'"
  by (simp add: outside_aws_same_def queue_same_def)

lemma processTenantMessage_queue: "keeps queue_same (processTenantMessage body)"
  by (intro processTenantMessage_keeps queue_same_preorder
        keeps_mono[OF getTenant_outside outside_db_queue]
        keeps_mono[OF createCollection_outside outside_aws_queue]
        keeps_mono[OF updateTenantOpenSearch_outside outside_db_queue]
        keeps_mono[OF markFailed_outside outside_db_queue])

lemma ineligible_not_valid:
  assumes "tenant = None \<or>
     (\<exists>t. tenant = Some t \<and>
          (status t \<noteq> ''active'' \<or> (\<exists>a. opensearch_arn t = Some a \<and> a \<noteq> []) \<or>
           opensearch_status t = Some ''ready''))"
  shows "\<not> isValid (validateTenantForProvisioning tenant)"
  using assms by (auto simp: validateTenantForProvisioning_def split: if_splits)

lemma valid_iff:
  "isValid (validateTenantForProvisioning tenant) \<longleftrightarrow>
     (\<exists>t. tenant = Some t \<and> status t = ''active'' \<and>
          (opensearch_arn t = None \<or> opensearch_arn t = Some []) \<and>
          opensearch_status t \<noteq> Some ''ready'')"
  by (auto simp: validateTenantForProvisioning_def split: option.splits)

lemma handled_message_is_deleted:
  assumes "Body m = Inr body" "validateMessage body = Inr True" "\<not> nullish body"
    and "h body w = (Inr (), w1)"
    and "sqs_delete_fault w1 (length (sqs_log w1)) = None"
  shows "startPolling_message h m w =
     w1\<lparr>sqs_log := sqs_log w1 @ [DeleteMessage (ReceiptHandle m)],
        deleted := insert (ReceiptHandle m) (deleted w1)\<rparr>"
  using assms by (simp add: startPolling_message_def io_defs deleteMessage_def)

lemma failed_message_is_kept:
  assumes "Body m = Inr body" "validateMessage body = Inr True" "\<not> nullish body"
    and "h body w = (Inl e, w1)"
  shows "startPolling_message h m w = w1"
  using assms by (simp add: startPolling_message_def io_defs)

lemma valid_not_nullish: "validateMessage body = Inr True \<Longrightarrow> \<not> nullish body"
  by (cases body) (simp_all add: validateMessage_def)

section \<open>Three runs of the handler\<close>

text \<open>
  A tenant that is active and has no collection, on a provider that refuses every call and
  on one that is ready at once; and a tenant that is ready, when the fetch of its record
  fails and the database works again afterwards.
\<close>

lemma denied_run:
  assumes "st \<noteq> Some ''ready''"
  shows "processTenantMessage valid_payload
     (sample_world (table_with (acme None st)) no_fault access_denied) =
   (Inl denied,
    (sample_world (table_with (acme None st)) no_fault access_denied)
      \<lparr>tenants := table_with (acme None (Some ''failed'')),
       db_log := [Select (JStr sample_uuid), UpdateStatus ''failed'' (JStr sample_uuid)],
       aws_log := [encryptionPolicyCommand ''accreda-acme'']\<rparr>)"
proof -
  let ?w = "sample_world (table_with (acme None st)) no_fault access_denied"
  have fetch: "db_fault ?w (length (db_log ?w)) = None"
    by (simp add: sample_world_simps no_fault_def)
  have row: "tenants ?w (field valid_payload ''tenant_id'') = Some (acme None st)"
    by (simp add: valid_payload_tenant_id sample_world_simps table_with_def acme_def)
  show ?thesis
    unfolding processTenantMessage_eligible
                [OF valid_payload_not_nullish fetch row acme_eligible[OF assms]]
    by (simp add: createCollection_denied sample_world_simps markFailed_eq valid_payload_tenant_id
          acme_def getCollectionName_def no_fault_def table_with_def sample_world_def)
qed

lemma active_run:
  assumes "st \<noteq> Some ''ready''"
  shows "processTenantMessage valid_payload
     (sample_world (table_with (acme None st)) no_fault always_active) =
   (Inr (),
    (sample_world (table_with (acme None st)) no_fault always_active)
      \<lparr>tenants := table_with (acme (Some sample_arn) (Some ''ready'')),
       db_log := [Select (JStr sample_uuid), Connect, Begin,
                  UpdateOpenSearch sample_arn ''ready'' (JStr sample_uuid), Commit],
       aws_log := [encryptionPolicyCommand ''accreda-acme'',
                   networkPolicyCommand ''accreda-acme'',
                   createCollectionCommand ''accreda-acme'' (JStr sample_uuid) sample_uuid ''acme'',
                   dataAccessPolicyCommand ''accreda-acme'' sample_uuid,
                   batchGetCollectionCommand ''accreda-acme'']\<rparr>)"
proof -
  let ?w = "sample_world (table_with (acme None st)) no_fault always_active"
  let ?w1 = "?w\<lparr>db_log := db_log ?w @ [Select (JStr sample_uuid)]\<rparr>"
  let ?p = "\<lparr>provisioned_arn = sample_arn,
           provisioned_endpoint = ''https://abc123.us-east-1.aoss.amazonaws.com'',
           provisioned_name = getCollectionName ''acme'',
           provisioned_status = ''ACTIVE''\<rparr>"
  let ?w2 = "?w1\<lparr>aws_log := aws_log ?w1 @
           [encryptionPolicyCommand (getCollectionName ''acme''),
            networkPolicyCommand (getCollectionName ''acme''),
            createCollectionCommand (getCollectionName ''acme'') (JStr sample_uuid) sample_uuid ''acme'',
            dataAccessPolicyCommand (getCollectionName ''acme'') sample_uuid,
            batchGetCollectionCommand (getCollectionName ''acme'')]\<rparr>"
  let ?row = "acme (Some sample_arn) (Some ''ready'')"
  let ?w3 = "?w2\<lparr>db_log := db_log ?w2 @
                 [Connect, Begin, UpdateOpenSearch sample_arn ''ready'' (JStr sample_uuid), Commit],
               tenants := (tenants ?w2)(JStr sample_uuid \<mapsto> ?row),
               txn := None\<rparr>"
  have fetch: "db_fault ?w (length (db_log ?w)) = None"
    by (simp add: sample_world_simps no_fault_def)
  have row: "tenants ?w (field valid_payload ''tenant_id'') = Some (acme None st)"
    by (simp add: valid_payload_tenant_id sample_world_simps table_with_simps)
  have cc: "createCollection (JStr sample_uuid) ''acme'' ?w1 = (Inr ?p, ?w2)"
    by (rule createCollection_active) (simp add: sample_world_simps)
  have up: "updateTenantOpenSearch (JStr sample_uuid) sample_arn ''ready'' ?w2 =
      (Inr (returning ?row), ?w3)"
    using updateTenantOpenSearch_commits[of ?w2 "JStr sample_uuid" "acme None st" sample_arn "''ready''"]
    by (simp add: sample_world_simps table_with_simps acme_simps no_fault_def)
  have "processTenantMessage valid_payload ?w = (Inr (), ?w3)"
    by (simp only: processTenantMessage_eligible
                     [OF valid_payload_not_nullish fetch row acme_eligible[OF assms]]
          valid_payload_tenant_id acme_simps cc up prod.case sum.case provisioned.simps)
  also have "?w3 = ?w\<lparr>tenants := table_with ?row,
       db_log := [Select (JStr sample_uuid), Connect, Begin,
                  UpdateOpenSearch sample_arn ''ready'' (JStr sample_uuid), Commit],
       aws_log := [encryptionPolicyCommand ''accreda-acme'',
                   networkPolicyCommand ''accreda-acme'',
                   createCollectionCommand ''accreda-acme'' (JStr sample_uuid) sample_uuid ''acme'',
                   dataAccessPolicyCommand ''accreda-acme'' sample_uuid,
                   batchGetCollectionCommand ''accreda-acme'']\<rparr>"
    by (simp add: sample_world_def table_with_simps getCollectionName_def)
  finally show ?thesis .
qed

lemma fetch_fault_marks_ready_tenant_failed:
  "processTenantMessage valid_payload
     (sample_world (table_with (acme (Some sample_arn) (Some ''ready''))) (fault_at 0) always_active) =
   (Inl timeout,
    (sample_world (table_with (acme (Some sample_arn) (Some ''ready''))) (fault_at 0) always_active)
      \<lparr>tenants := table_with (acme (Some sample_arn) (Some ''failed'')),
       db_log := [Select (JStr sample_uuid), UpdateStatus ''failed'' (JStr sample_uuid)]\<rparr>)"
proof -
  let ?w = "sample_world (table_with (acme (Some sample_arn) (Some ''ready''))) (fault_at 0) always_active"
  have nn: "\<not> nullish valid_payload" by (simp add: valid_payload_def payload_def)
  have fetch: "db_fault ?w (length (db_log ?w)) = Some timeout"
    by (simp add: sample_world_simps fault_at_def)
  show ?thesis
    unfolding processTenantMessage_fetch_fault[OF nn fetch]
    by (simp add: markFailed_eq valid_payload_tenant_id sample_world_def fault_at_def
          table_with_def acme_def)
qed

section \<open>Ineligible tenants\<close>

text \<open>
  Claim C1: when the fetch of the tenant record returns and the record is absent, or its
  status is not \<^verbatim>\<open>active\<close>, or it has a non-empty \<^verbatim>\<open>opensearch_arn\<close>, or its
  \<^verbatim>\<open>opensearch_status\<close> is \<^verbatim>\<open>ready\<close>, \<open>processTenantMessage\<close> returns without error having
  issued nothing but the \<^verbatim>\<open>SELECT\<close>: no command is sent to the provider and the table is
  unchanged. The consumer loop then deletes the message: when the delete call succeeds,
  the world after the loop body differs from the world before only by the logged
  \<^verbatim>\<open>SELECT\<close>, the logged delete and the removed receipt handle.
\<close>

theorem processTenantMessage_skips_ineligible:
  assumes "db_fault w (length (db_log w)) = None"
    and "tenants w (field body ''tenant_id'') = None \<or>
         (\<exists>t. tenants w (field body ''tenant_id'') = Some t \<and>
              (status t \<noteq> ''active'' \<or> (\<exists>a. opensearch_arn t = Some a \<and> a \<noteq> []) \<or>
               opensearch_status t = Some ''ready''))"
    and "Body m = Inr body" and "validateMessage body = Inr True"
    and "sqs_delete_fault w (length (sqs_log w)) = None"
  shows "processTenantMessage body w =
           (Inr (), w\<lparr>db_log := db_log w @ [Select (field body ''tenant_id'')]\<rparr>) \<and>
         startPolling_message processTenantMessage m w =
           w\<lparr>db_log := db_log w @ [Select (field body ''tenant_id'')],
             sqs_log := sqs_log w @ [DeleteMessage (ReceiptHandle m)],
             deleted := insert (ReceiptHandle m) (deleted w)\<rparr>"
proof -
  have nn: "\<not> nullish body" using assms(4) by (rule valid_not_nullish)
  have run: "processTenantMessage body w =
           (Inr (), w\<lparr>db_log := db_log w @ [Select (field body ''tenant_id'')]\<rparr>)"
    by (rule processTenantMessage_rejected[OF nn assms(1) ineligible_not_valid[OF assms(2)]])
  have "startPolling_message processTenantMessage m w =
      (w\<lparr>db_log := db_log w @ [Select (field body ''tenant_id'')]\<rparr>)
        \<lparr>sqs_log := sqs_log (w\<lparr>db_log := db_log w @ [Select (field body ''tenant_id'')]\<rparr>) @
                     [DeleteMessage (ReceiptHandle m)],
         deleted := insert (ReceiptHandle m)
                      (deleted (w\<lparr>db_log := db_log w @ [Select (field body ''tenant_id'')]\<rparr>))\<rparr>"
    by (rule handled_message_is_deleted[where h = processTenantMessage,
            OF assms(3) assms(4) nn run]) (simp add: assms(5))
  with run show ?thesis by simp
qed

text \<open>A tenant that is already \<^verbatim>\<open>ready\<close>, with its collection reference.\<close>

theorem processTenantMessage_skips_ineligible_witness:
  "tenants (sample_world (table_with (acme (Some sample_arn) (Some ''ready''))) no_fault always_active)
     (JStr sample_uuid) = Some (acme (Some sample_arn) (Some ''ready'')) \<and>
   opensearch_status (acme (Some sample_arn) (Some ''ready'')) = Some ''ready'' \<and>
   validateMessage valid_payload = Inr True \<and>
   startPolling_message processTenantMessage (delivery ''receipt-4'' (Inr valid_payload))
     (sample_world (table_with (acme (Some sample_arn) (Some ''ready''))) no_fault always_active) =
   (sample_world (table_with (acme (Some sample_arn) (Some ''ready''))) no_fault always_active)
     \<lparr>db_log := [Select (JStr sample_uuid)],
      sqs_log := [DeleteMessage ''receipt-4''],
      deleted := {''receipt-4''}\<rparr>"
proof -
  let ?t = "acme (Some sample_arn) (Some ''ready'')"
  let ?w = "sample_world (table_with ?t) no_fault always_active"
  let ?m = "delivery ''receipt-4'' (Inr valid_payload)"
  have row: "tenants ?w (field valid_payload ''tenant_id'') = Some ?t"
    by (simp add: valid_payload_tenant_id sample_defs table_with_def acme_def)
  have st: "opensearch_status ?t = Some ''ready''" by (simp add: acme_def)
  have "startPolling_message processTenantMessage ?m ?w =
           ?w\<lparr>db_log := db_log ?w @ [Select (field valid_payload ''tenant_id'')],
             sqs_log := sqs_log ?w @ [DeleteMessage (ReceiptHandle ?m)],
             deleted := insert (ReceiptHandle ?m) (deleted ?w)\<rparr>"
    using processTenantMessage_skips_ineligible[of ?w valid_payload ?m] row st
      valid_payload_accepted
    by (simp add: sample_defs delivery_def)
  with row st valid_payload_accepted show ?thesis
    by (simp add: valid_payload_tenant_id sample_defs delivery_def)
qed

section \<open>Failures of the provisioning sequence and of the commit\<close>

text \<open>
  Claim C5: for an event whose tenant was fetched and passed the validation, when
  \<open>createCollection\<close> throws \<open>e\<close>, or it returns and \<open>updateTenantOpenSearch\<close> throws \<open>e\<close>,
  the handler calls \<open>markTenantOpenSearchFailed\<close>, which never throws, issues the single
  update of the status to \<^verbatim>\<open>failed\<close> and, when that update does not fail, leaves the row
  with status \<^verbatim>\<open>failed\<close>; the handler then throws the same \<open>e\<close>. The loop body ends in
  the world the handler left: it issues no delete call and the message stays in the queue.
\<close>

theorem processTenantMessage_marks_failed_and_rethrows:
  assumes "db_fault w (length (db_log w)) = None"
    and "tenants w (field body ''tenant_id'') = Some t"
    and "isValid (validateTenantForProvisioning (Some t))"
    and "createCollection (field body ''tenant_id'') (slug t)
           (w\<lparr>db_log := db_log w @ [Select (field body ''tenant_id'')]\<rparr>) = (Inl e, w2) \<or>
         (\<exists>c w1. createCollection (field body ''tenant_id'') (slug t)
                    (w\<lparr>db_log := db_log w @ [Select (field body ''tenant_id'')]\<rparr>) = (Inr c, w1) \<and>
                  updateTenantOpenSearch (field body ''tenant_id'') (provisioned_arn c) ''ready'' w1 =
                    (Inl e, w2))"
    and "Body m = Inr body" and "validateMessage body = Inr True"
  shows "processTenantMessage body w =
           (Inl e, snd (markTenantOpenSearchFailed (field body ''tenant_id'') (error_message e) w2)) \<and>
         fst (markTenantOpenSearchFailed (field body ''tenant_id'') (error_message e) w2) = Inr () \<and>
         db_log (snd (markTenantOpenSearchFailed (field body ''tenant_id'') (error_message e) w2)) =
           db_log w2 @ [UpdateStatus ''failed'' (field body ''tenant_id'')] \<and>
         (db_fault w2 (length (db_log w2)) = None \<longrightarrow>
            tenants (snd (markTenantOpenSearchFailed (field body ''tenant_id'') (error_message e) w2)) =
              (case tenants w2 (field body ''tenant_id'') of
                 None \<Rightarrow> tenants w2
               | Some t2 \<Rightarrow> (tenants w2)(field body ''tenant_id'' \<mapsto>
                              t2\<lparr>opensearch_status := Some ''failed''\<rparr>))) \<and>
         startPolling_message processTenantMessage m w = snd (processTenantMessage body w) \<and>
         sqs_log (startPolling_message processTenantMessage m w) = sqs_log w \<and>
         deleted (startPolling_message processTenantMessage m w) = deleted w"
proof -
  let ?tid = "field body ''tenant_id''"
  let ?w3 = "snd (markTenantOpenSearchFailed ?tid (error_message e) w2)"
  have nn: "\<not> nullish body" using assms(6) by (rule valid_not_nullish)
  have run: "processTenantMessage body w = (Inl e, ?w3)"
    using assms(4) processTenantMessage_eligible[OF nn assms(1) assms(2) assms(3)]
    by auto
  have kept: "startPolling_message processTenantMessage m w = ?w3"
    by (rule failed_message_is_kept[where h = processTenantMessage, OF assms(5) assms(6) nn run])
  have "queue_same w (snd (processTenantMessage body w))"
    by (rule keepsD[OF processTenantMessage_queue])
  then have q: "sqs_log ?w3 = sqs_log w" "deleted ?w3 = deleted w"
    using run by (simp_all add: queue_same_def)
  show ?thesis
    using run kept q by (simp add: markFailed_eq split: option.splits)
qed

text \<open>The provider refuses the first call of the sequence.\<close>

theorem processTenantMessage_marks_failed_and_rethrows_witness:
  "processTenantMessage valid_payload
     (sample_world (table_with (acme None (Some ''pending''))) no_fault access_denied) =
   (Inl denied,
    (sample_world (table_with (acme None (Some ''pending''))) no_fault access_denied)
      \<lparr>tenants := table_with (acme None (Some ''failed'')),
       db_log := [Select (JStr sample_uuid), UpdateStatus ''failed'' (JStr sample_uuid)],
       aws_log := [encryptionPolicyCommand ''accreda-acme'']\<rparr>) \<and>
   deleted (startPolling_message processTenantMessage (delivery ''receipt-5'' (Inr valid_payload))
     (sample_world (table_with (acme None (Some ''pending''))) no_fault access_denied)) = {} \<and>
   sqs_log (startPolling_message processTenantMessage (delivery ''receipt-5'' (Inr valid_payload))
     (sample_world (table_with (acme None (Some ''pending''))) no_fault access_denied)) = []"
proof -
  let ?t = "acme None (Some ''pending'')"
  let ?w = "sample_world (table_with ?t) no_fault access_denied"
  let ?m = "delivery ''receipt-5'' (Inr valid_payload)"
  let ?w1 = "?w\<lparr>db_log := db_log ?w @ [Select (field valid_payload ''tenant_id'')]\<rparr>"
  let ?w2 = "?w1\<lparr>aws_log := aws_log ?w1 @ [encryptionPolicyCommand (getCollectionName (slug ?t))]\<rparr>"
  have fetch: "db_fault ?w (length (db_log ?w)) = None"
    by (simp add: sample_world_simps no_fault_def)
  have row: "tenants ?w (field valid_payload ''tenant_id'') = Some ?t"
    by (simp add: valid_payload_tenant_id sample_world_simps table_with_def acme_def)
  have ok: "isValid (validateTenantForProvisioning (Some ?t))"
    by (simp add: validateTenantForProvisioning_def acme_def)
  have fail: "createCollection (field valid_payload ''tenant_id'') (slug ?t) ?w1 = (Inl denied, ?w2)"
    by (rule createCollection_denied) (simp add: sample_world_simps)
  have body: "Body ?m = Inr valid_payload" by (simp add: delivery_def)
  note inst = processTenantMessage_marks_failed_and_rethrows
               [OF fetch row ok disjI1[OF fail] body valid_payload_accepted]
  have w3: "snd (markTenantOpenSearchFailed (field valid_payload ''tenant_id'')
                   (error_message denied) ?w2) =
      ?w\<lparr>tenants := table_with (acme None (Some ''failed'')),
         db_log := [Select (JStr sample_uuid), UpdateStatus ''failed'' (JStr sample_uuid)],
         aws_log := [encryptionPolicyCommand ''accreda-acme'']\<rparr>"
    by (simp add: markFailed_eq valid_payload_tenant_id sample_world_def no_fault_def
          table_with_def acme_def getCollectionName_def)
  from inst w3 show ?thesis
    by (simp add: sample_world_simps)
qed

section \<open>Transitions of the resource status\<close>

lemma getTenant_monotone: "keeps status_monotone (getTenant tid)"
  by (simp add: keeps_def getTenant_eq same_tenants_monotone split: option.splits)

lemma createCollection_monotone: "keeps status_monotone (createCollection tid sl)"
  by (rule keeps_mono[OF createCollection_outside])
     (simp add: outside_aws_same_def same_tenants_monotone)

lemma updated_row_monotone:
  assumes "tenants w k = Some t" "status_step t t'" "tenants w' = (tenants w)(k \<mapsto> t')"
  shows "status_monotone w w'"
  using assms by (auto simp: status_monotone_def status_step_refl split: option.splits)

lemma markFailed_monotone: "keeps status_monotone (markTenantOpenSearchFailed tid msg)"
  unfolding keeps_def
proof
  fix w
  show "status_monotone w (snd (markTenantOpenSearchFailed tid msg w))"
  proof (cases "db_fault w (length (db_log w))")
    case (Some e)
    then show ?thesis by (simp add: markFailed_eq same_tenants_monotone)
  next
    case None
    show ?thesis
    proof (cases "tenants w tid")
      case no_row: None
      then show ?thesis using None by (simp add: markFailed_eq same_tenants_monotone)
    next
      case (Some t)
      have "status_monotone w
              (w\<lparr>db_log := db_log w @ [UpdateStatus ''failed'' tid],
                 tenants := (tenants w)(tid \<mapsto> t\<lparr>opensearch_status := Some ''failed''\<rparr>)\<rparr>)"
        by (rule updated_row_monotone[OF Some, of "t\<lparr>opensearch_status := Some ''failed''\<rparr>"])
           (simp_all add: status_step_def)
      then show ?thesis using None Some by (simp add: markFailed_eq)
    qed
  qed
qed

lemma updateTenantOpenSearch_monotone:
  "keeps status_monotone (updateTenantOpenSearch tid a ''ready'')"
  unfolding keeps_def
proof
  fix w
  obtain r w' where run: "updateTenantOpenSearch tid a ''ready'' w = (r, w')"
    by (cases "updateTenantOpenSearch tid a ''ready'' w")
  note out = updateTenantOpenSearch_outcome[OF run]
  have "status_monotone w w'"
  proof (cases r)
    case (Inl e)
    with out show ?thesis by (simp add: same_tenants_monotone)
  next
    case (Inr row)
    with out obtain t where t: "tenants w tid = Some t"
      and tab: "tenants w' =
        (tenants w)(tid \<mapsto> t\<lparr>opensearch_arn := Some a, opensearch_status := Some ''ready''\<rparr>)"
      by auto
    show ?thesis
      by (rule updated_row_monotone[OF t _ tab]) (simp add: status_step_def)
  qed
  then show "status_monotone w (snd (updateTenantOpenSearch tid a ''ready'' w))"
    using run by simp
qed

lemma processTenantMessage_monotone: "keeps status_monotone (processTenantMessage body)"
  by (intro processTenantMessage_keeps status_monotone_preorder getTenant_monotone
        createCollection_monotone updateTenantOpenSearch_monotone markFailed_monotone)

lemma queue_calls_monotone:
  "keeps status_monotone (deleteMessage rh)" "keeps status_monotone receiveMessages"
  "keeps status_monotone (sleep ms)"
  by (simp_all add: keeps_def deleteMessage_def receiveMessages_def sleep_def Let_def
        same_tenants_monotone split: option.splits)

text \<open>
  Claim C9 as stated fails on a redelivery after a failure: a tenant whose status is
  already \<^verbatim>\<open>failed\<close> (not \<^verbatim>\<open>uninitialized\<close>) passes the validation, and when provisioning
  fails again the status \<^verbatim>\<open>failed\<close> is written for it.
\<close>

theorem failed_is_written_over_failed:
  "opensearch_status (acme None (Some ''failed'')) = Some ''failed'' \<and>
   isValid (validateTenantForProvisioning (Some (acme None (Some ''failed'')))) \<and>
   processTenantMessage valid_payload
     (sample_world (table_with (acme None (Some ''failed''))) no_fault access_denied) =
   (Inl denied,
    (sample_world (table_with (acme None (Some ''failed''))) no_fault access_denied)
      \<lparr>db_log := [Select (JStr sample_uuid), UpdateStatus ''failed'' (JStr sample_uuid)],
       aws_log := [encryptionPolicyCommand ''accreda-acme'']\<rparr>)"
proof -
  let ?t = "acme None (Some ''failed'')"
  let ?w = "sample_world (table_with ?t) no_fault access_denied"
  have nn: "\<not> nullish valid_payload" by (simp add: valid_payload_def payload_def)
  have fetch: "db_fault ?w (length (db_log ?w)) = None"
    by (simp add: sample_world_simps no_fault_def)
  have row: "tenants ?w (field valid_payload ''tenant_id'') = Some ?t"
    by (simp add: valid_payload_tenant_id sample_world_simps table_with_def acme_def)
  have ok: "isValid (validateTenantForProvisioning (Some ?t))"
    by (simp add: validateTenantForProvisioning_def acme_def)
  have "processTenantMessage valid_payload ?w =
      (Inl denied, ?w\<lparr>db_log := [Select (JStr sample_uuid), UpdateStatus ''failed'' (JStr sample_uuid)],
       aws_log := [encryptionPolicyCommand ''accreda-acme'']\<rparr>)"
    unfolding processTenantMessage_eligible[OF nn fetch row ok]
    by (simp add: createCollection_denied sample_world_simps markFailed_eq valid_payload_tenant_id
          acme_def getCollectionName_def no_fault_def table_with_def sample_world_def)
  with ok show ?thesis by (simp add: acme_def)
qed

text \<open>
  Claim C9, amended: over any run of the consumer loop the service writes nothing but
  \<^verbatim>\<open>ready\<close> and \<^verbatim>\<open>failed\<close> to the resource status, so the status of every tenant is what
  it was, or \<^verbatim>\<open>ready\<close>, or \<^verbatim>\<open>failed\<close>, and is never reset to \<^verbatim>\<open>uninitialized\<close>. In a run
  of the handler whose fetch of the tenant record returned, the status \<^verbatim>\<open>failed\<close> is
  written only for a tenant that passed the validation: active, with an empty resource
  reference, and with a resource status other than \<^verbatim>\<open>ready\<close> (it may already be
  \<^verbatim>\<open>failed\<close>) at validation time.
\<close>

theorem status_only_advances:
  "status_monotone w (startPolling processTenantMessage turns w) \<and>
   (\<not> nullish body \<longrightarrow> db_fault w (length (db_log w)) = None \<longrightarrow>
      UpdateStatus ''failed'' (field body ''tenant_id'') \<in>
        set (drop (length (db_log w)) (db_log (snd (processTenantMessage body w)))) \<longrightarrow>
      (\<exists>t. tenants w (field body ''tenant_id'') = Some t \<and> status t = ''active'' \<and>
           (opensearch_arn t = None \<or> opensearch_arn t = Some []) \<and>
           opensearch_status t \<noteq> Some ''ready''))"
proof (intro conjI impI)
  show "status_monotone w (startPolling processTenantMessage turns w)"
    by (rule startPolling_keeps[OF status_monotone_preorder processTenantMessage_monotone
              queue_calls_monotone])
next
  assume nn: "\<not> nullish body" and fetch: "db_fault w (length (db_log w)) = None"
    and wr: "UpdateStatus ''failed'' (field body ''tenant_id'') \<in>
        set (drop (length (db_log w)) (db_log (snd (processTenantMessage body w))))"
  have "isValid (validateTenantForProvisioning (tenants w (field body ''tenant_id'')))"
  proof (rule ccontr)
    assume "\<not> isValid (validateTenantForProvisioning (tenants w (field body ''tenant_id'')))"
    from processTenantMessage_rejected[OF nn fetch this] wr show False by simp
  qed
  then show "\<exists>t. tenants w (field body ''tenant_id'') = Some t \<and> status t = ''active'' \<and>
           (opensearch_arn t = None \<or> opensearch_arn t = Some []) \<and>
           opensearch_status t \<noteq> Some ''ready''"
    by (simp add: valid_iff)
qed

text \<open>A tenant that was never provisioned, on a provider that refuses the first call.\<close>

theorem status_only_advances_witness:
  "status_monotone
     (sample_world (table_with (acme None (Some ''pending''))) no_fault access_denied)
     (startPolling processTenantMessage 1
        (sample_world (table_with (acme None (Some ''pending''))) no_fault access_denied)) \<and>
   UpdateStatus ''failed'' (JStr sample_uuid) \<in>
     set (db_log (snd (processTenantMessage valid_payload
        (sample_world (table_with (acme None (Some ''pending''))) no_fault access_denied)))) \<and>
   (\<exists>t. tenants (sample_world (table_with (acme None (Some ''pending''))) no_fault access_denied)
          (JStr sample_uuid) = Some t \<and>
        status t = ''active'' \<and>
        (opensearch_arn t = None \<or> opensearch_arn t = Some []) \<and>
        opensearch_status t \<noteq> Some ''ready'')"
proof -
  let ?w = "sample_world (table_with (acme None (Some ''pending''))) no_fault access_denied"
  note inst = status_only_advances[where w = ?w and turns = 1 and body = valid_payload]
  have fetch: "db_fault ?w (length (db_log ?w)) = None"
    by (simp add: sample_world_simps no_fault_def)
  have run: "db_log (snd (processTenantMessage valid_payload ?w)) =
      [Select (JStr sample_uuid), UpdateStatus ''failed'' (JStr sample_uuid)]"
    by (simp add: denied_run)
  have written: "UpdateStatus ''failed'' (field valid_payload ''tenant_id'') \<in>
      set (drop (length (db_log ?w)) (db_log (snd (processTenantMessage valid_payload ?w))))"
    by (simp add: run valid_payload_tenant_id sample_world_simps)
  from inst valid_payload_not_nullish fetch written
  have "\<exists>t. tenants ?w (field valid_payload ''tenant_id'') = Some t \<and> status t = ''active'' \<and>
           (opensearch_arn t = None \<or> opensearch_arn t = Some []) \<and>
           opensearch_status t \<noteq> Some ''ready''"
    by blast
  with inst run show ?thesis by (simp add: valid_payload_tenant_id)
qed

section \<open>The name of the collection\<close>

lemma send_sends_only: "c \<in> A \<Longrightarrow> keeps (sends_only A) (send c)"
  by (simp add: keeps_def sends_only_def send_def)

lemma sleep_sends_only: "keeps (sends_only A) (sleep ms)"
  by (simp add: keeps_def sends_only_def sleep_def)

lemma createEncryptionPolicy_log:
  "aws_log (snd (createEncryptionPolicy n w)) = aws_log w @ [encryptionPolicyCommand n]"
  by (simp add: createEncryptionPolicy_def io_defs send_def split: sum.splits)

lemma createCollection_log:
  "\<exists>cs. aws_log (snd (createCollection tid sl w)) =
          aws_log w @ encryptionPolicyCommand (getCollectionName sl) # cs \<and>
        set cs \<subseteq> provisioningCommands tid sl"
proof -
  let ?A = "provisioningCommands tid sl"
  let ?enc = "createEncryptionPolicy (getCollectionName sl)"
  from createCollection_split[OF sends_only_preorder sleep_sends_only send_sends_only, of tid sl ?A]
  obtain rest where rest: "keeps (sends_only ?A) rest"
    and eq: "createCollection tid sl =
             io_catch (io_bind ?enc (\<lambda>_. rest)) (\<lambda>error. io_throw error)"
    by blast
  obtain r w1 where e: "?enc w = (r, w1)" by (cases "?enc w")
  have log1: "aws_log w1 = aws_log w @ [encryptionPolicyCommand (getCollectionName sl)]"
    using createEncryptionPolicy_log[of "getCollectionName sl" w] e by simp
  show ?thesis
  proof (cases r)
    case (Inl err)
    then have "snd (createCollection tid sl w) = w1"
      using e by (simp add: eq io_defs)
    with log1 show ?thesis by simp
  next
    case (Inr u)
    then have "snd (createCollection tid sl w) = snd (rest w1)"
      using e by (simp add: eq io_defs split: prod.splits sum.splits)
    moreover from keepsD[OF rest, of w1]
    obtain cs where "aws_log (snd (rest w1)) = aws_log w1 @ cs" "set cs \<subseteq> ?A"
      unfolding sends_only_def by blast
    ultimately show ?thesis using log1 by simp
  qed
qed

lemma processTenantMessage_log:
  assumes "\<not> nullish body"
    and "db_fault w (length (db_log w)) = None"
    and "tenants w (field body ''tenant_id'') = Some t"
    and "isValid (validateTenantForProvisioning (Some t))"
  shows "\<exists>cs. aws_log (snd (processTenantMessage body w)) =
                aws_log w @ encryptionPolicyCommand (''accreda-'' @ slug t) # cs \<and>
              set cs \<subseteq> provisioningCommands (field body ''tenant_id'') (slug t)"
proof -
  let ?tid = "field body ''tenant_id''"
  let ?w1 = "w\<lparr>db_log := db_log w @ [Select ?tid]\<rparr>"
  obtain r w2 where cc: "createCollection ?tid (slug t) ?w1 = (r, w2)"
    by (cases "createCollection ?tid (slug t) ?w1")
  from createCollection_log[of ?tid "slug t" ?w1] cc
  obtain cs where log2: "aws_log w2 = aws_log w @ encryptionPolicyCommand (''accreda-'' @ slug t) # cs"
    and sub: "set cs \<subseteq> provisioningCommands ?tid (slug t)"
    by (auto simp: getCollectionName_def)
  have mark: "\<And>e w'. aws_log (snd (markTenantOpenSearchFailed ?tid (error_message e) w')) = aws_log w'"
    using keepsD[OF markFailed_outside] by (simp add: outside_db_same_def)
  have upd: "\<And>a w'. aws_log (snd (updateTenantOpenSearch ?tid a ''ready'' w')) = aws_log w'"
    using keepsD[OF updateTenantOpenSearch_outside] by (simp add: outside_db_same_def)
  have "aws_log (snd (processTenantMessage body w)) = aws_log w2"
  proof (cases r)
    case (Inl e)
    then show ?thesis
      unfolding processTenantMessage_eligible[OF assms] using cc by (simp add: mark)
  next
    case (Inr c)
    obtain r3 w3 where u: "updateTenantOpenSearch ?tid (provisioned_arn c) ''ready'' w2 = (r3, w3)"
      by (cases "updateTenantOpenSearch ?tid (provisioned_arn c) ''ready'' w2")
    have "aws_log w3 = aws_log w2" using upd[of "provisioned_arn c" w2] u by simp
    then show ?thesis
      unfolding processTenantMessage_eligible[OF assms] using cc Inr u
      by (cases r3) (simp_all add: mark)
  qed
  with log2 sub show ?thesis by auto
qed

text \<open>The commands of \<open>provisioningCommands\<close>, constructor by constructor.\<close>

lemmas command_defs =
  provisioningCommands_def Let_def getCollectionName_def encryptionPolicyCommand_def
  networkPolicyCommand_def batchGetCollectionCommand_def createCollectionCommand_def
  dataAccessPolicyCommand_def

lemma provisioning_collection:
  assumes "CreateCollectionCommand nm ty d tags \<in> provisioningCommands tid sl"
  shows "nm = ''accreda-'' @ sl \<and> ty = ''SEARCH'' \<and>
         map_of tags ''TenantId'' = Some tid \<and> map_of tags ''TenantSlug'' = Some (JStr sl)"
  using assms by (auto simp: command_defs split: sum.splits)

lemma provisioning_security_policy:
  assumes "CreateSecurityPolicyCommand nm ty pol d \<in> provisioningCommands tid sl"
  shows "(nm = ''accreda-'' @ sl @ ''-encryption'' \<and> ty = ''encryption'') \<or>
         (nm = ''accreda-'' @ sl @ ''-network'' \<and> ty = ''network'')"
  using assms by (auto simp: command_defs split: sum.splits)

lemma provisioning_access_policy:
  assumes "CreateAccessPolicyCommand nm ty pol d \<in> provisioningCommands tid sl"
  shows "nm = ''accreda-'' @ sl @ ''-access'' \<and> ty = ''data''"
  using assms by (auto simp: command_defs split: sum.splits)

lemma provisioning_status_query:
  assumes "BatchGetCollectionCommand names \<in> provisioningCommands tid sl"
  shows "names = [''accreda-'' @ sl]"
  using assms by (auto simp: command_defs split: sum.splits)

text \<open>
  A call of \<open>createCollection\<close> that returns has sent the \<^verbatim>\<open>CreateCollectionCommand\<close>, and
  so has a run of the handler that returns for an eligible tenant.
\<close>

lemma bind_returns:
  assumes "io_bind m f w = (Inr y, w')"
  obtains x w1 where "m w = (Inr x, w1)" "f x w1 = (Inr y, w')"
  using assms by (auto simp: io_bind_def split: prod.splits sum.splits)

lemma catch_rethrow_returns:
  assumes "io_catch m (\<lambda>error. io_throw error) w = (Inr y, w')"
  shows "m w = (Inr y, w')"
  using assms by (auto simp: io_catch_def io_throw_def split: prod.splits sum.splits)

lemma createCollection_returns:
  assumes "createCollection tid sl w = (Inr p, w')"
  shows "\<exists>tx before after. ToString tid = Inr tx \<and>
           aws_log w' = aws_log w @ before @
             createCollectionCommand (getCollectionName sl) tid tx sl # after"
proof (cases "ToString tid")
  case (Inl e)
  let ?n = "getCollectionName sl"
  have "createCollection tid sl =
       io_catch (io_bind (createEncryptionPolicy ?n) (\<lambda>_.
         io_bind (io_catch (createNetworkPolicy ?n) (\<lambda>networkError. io_throw networkError))
           (\<lambda>_. io_throw e))) (\<lambda>error. io_throw error)"
    by (simp add: createCollection_def Let_def Inl io_laws)
  with assms have False
    by (auto simp: io_throw_def elim!: bind_returns dest!: catch_rethrow_returns)
  then show ?thesis ..
next
  case (Inr tx)
  let ?n = "getCollectionName sl"
  let ?cc = "createCollectionCommand ?n tid tx sl"
  let ?tail = "\<lambda>createResponse.
         io_bind (case createCollectionDetail createResponse of
                    None \<Rightarrow> io_throw missingDetailError
                  | Some detail \<Rightarrow> io_return ()) (\<lambda>_.
         io_bind (createDataAccessPolicy ?n tid) (\<lambda>_.
         io_bind (waitForCollectionActive ?n 60) (\<lambda>collection.
           io_return \<lparr>provisioned_arn = arn collection,
                      provisioned_endpoint = collectionEndpoint collection,
                      provisioned_name = ?n,
                      provisioned_status = collection_status collection\<rparr>)))"
  have eq: "createCollection tid sl =
       io_catch (io_bind (createEncryptionPolicy ?n) (\<lambda>_.
         io_bind (io_catch (createNetworkPolicy ?n) (\<lambda>networkError. io_throw networkError)) (\<lambda>_.
         io_bind (send ?cc) ?tail))) (\<lambda>error. io_throw error)"
    by (simp add: createCollection_def Let_def Inr io_laws)
  note pre = sends_only_preorder[of UNIV]
  note sending = send_sends_only[OF UNIV_I]
  have enc: "keeps (sends_only UNIV) (createEncryptionPolicy ?n)"
    by (rule createEncryptionPolicy_keeps[OF pre sending])
  have net: "keeps (sends_only UNIV)
               (io_catch (createNetworkPolicy ?n) (\<lambda>networkError. io_throw networkError))"
    by (intro keeps_catch keeps_throw pre createNetworkPolicy_keeps sending)
  have tail: "\<And>resp. keeps (sends_only UNIV) (?tail resp)"
    by (intro keeps_bind keeps_return pre createDataAccessPolicy_keeps
          waitForCollectionActive_keeps sending sleep_sends_only)
       (auto split: option.splits intro: keeps_throw keeps_return pre)
  note body = assms[unfolded eq, THEN catch_rethrow_returns]
  from body obtain u1 w1 where
      s1: "createEncryptionPolicy ?n w = (Inr u1, w1)"
    and r1: "io_bind (io_catch (createNetworkPolicy ?n) (\<lambda>networkError. io_throw networkError))
               (\<lambda>_. io_bind (send ?cc) ?tail) w1 = (Inr p, w')"
    by (rule bind_returns)
  from r1 obtain u2 w2 where
      s2: "io_catch (createNetworkPolicy ?n) (\<lambda>networkError. io_throw networkError) w1 = (Inr u2, w2)"
    and r2: "io_bind (send ?cc) ?tail w2 = (Inr p, w')"
    by (rule bind_returns)
  from r2 obtain resp w3 where
      s3: "send ?cc w2 = (Inr resp, w3)"
    and s4: "?tail resp w3 = (Inr p, w')"
    by (rule bind_returns)
  have g1: "sends_only UNIV w w1" using keepsD[OF enc, of w] s1 by simp
  have g2: "sends_only UNIV w1 w2" using keepsD[OF net, of w1] s2 by simp
  have g3: "aws_log w3 = aws_log w2 @ [?cc]" using s3 by (auto simp: send_def)
  have g4: "sends_only UNIV w3 w'" using keepsD[OF tail[of resp], of w3] s4 by simp
  from g1 g2 g3 g4 obtain a b c where
    "aws_log w' = ((aws_log w @ a) @ b) @ [?cc] @ c"
    unfolding sends_only_def by auto
  then have "aws_log w' = aws_log w @ (a @ b) @ ?cc # c" by simp
  with Inr show ?thesis by blast
qed

lemma processTenantMessage_returns:
  assumes "\<not> nullish body"
    and "db_fault w (length (db_log w)) = None"
    and "tenants w (field body ''tenant_id'') = Some t"
    and "isValid (validateTenantForProvisioning (Some t))"
    and "fst (processTenantMessage body w) = Inr ()"
  shows "\<exists>p w2. createCollection (field body ''tenant_id'') (slug t)
                   (w\<lparr>db_log := db_log w @ [Select (field body ''tenant_id'')]\<rparr>) = (Inr p, w2) \<and>
                aws_log (snd (processTenantMessage body w)) = aws_log w2"
proof -
  let ?tid = "field body ''tenant_id''"
  let ?w1 = "w\<lparr>db_log := db_log w @ [Select ?tid]\<rparr>"
  obtain r w2 where cc: "createCollection ?tid (slug t) ?w1 = (r, w2)"
    by (cases "createCollection ?tid (slug t) ?w1")
  note eq = processTenantMessage_eligible[OF assms(1-4)]
  show ?thesis
  proof (cases r)
    case (Inl e)
    with assms(5) cc show ?thesis by (simp add: eq)
  next
    case (Inr p)
    obtain r3 w3 where u: "updateTenantOpenSearch ?tid (provisioned_arn p) ''ready'' w2 = (r3, w3)"
      by (cases "updateTenantOpenSearch ?tid (provisioned_arn p) ''ready'' w2")
    have "aws_log w3 = aws_log w2"
      using keepsD[OF updateTenantOpenSearch_outside, of w2 ?tid "provisioned_arn p" "''ready''"] u
      by (simp add: outside_db_same_def)
    moreover have "r3 = Inr (projr r3)" "snd (processTenantMessage body w) = w3"
      using assms(5) cc Inr u by (cases r3; simp add: eq)+
    ultimately show ?thesis using cc Inr by auto
  qed
qed

text \<open>
  Claim C10: for an event whose tenant was fetched and passed the validation, the handler
  sends the provider a non-empty list of commands, and every one of them carries the
  name \<^verbatim>\<open>accreda-\<close> followed by the slug of the fetched row: every
  \<^verbatim>\<open>CreateCollectionCommand\<close> has that name, the type \<^verbatim>\<open>SEARCH\<close> and the stored slug as its
  \<^verbatim>\<open>TenantSlug\<close> tag, every \<^verbatim>\<open>CreateSecurityPolicyCommand\<close> and \<^verbatim>\<open>CreateAccessPolicyCommand\<close>
  that name with its suffix, every \<^verbatim>\<open>BatchGetCollectionCommand\<close> asks for that name alone;
  the first command is the encryption policy of that collection, and a run that returns
  has sent the \<^verbatim>\<open>CreateCollectionCommand\<close> of that name. The \<^verbatim>\<open>tenant_slug\<close> of the event is
  not read: any other event with the same \<^verbatim>\<open>tenant_id\<close> is handled identically.
\<close>

theorem collection_named_after_stored_slug:
  assumes "\<not> nullish body"
    and "db_fault w (length (db_log w)) = None"
    and "tenants w (field body ''tenant_id'') = Some t"
    and "isValid (validateTenantForProvisioning (Some t))"
  shows "(\<exists>cs. aws_log (snd (processTenantMessage body w)) =
                aws_log w @ encryptionPolicyCommand (''accreda-'' @ slug t) # cs \<and>
              set cs \<subseteq> provisioningCommands (field body ''tenant_id'') (slug t)) \<and>
         (\<forall>other. \<not> nullish other \<longrightarrow>
            field other ''tenant_id'' = field body ''tenant_id'' \<longrightarrow>
            processTenantMessage other w = processTenantMessage body w) \<and>
         (\<exists>policy description sent.
            aws_log (snd (processTenantMessage body w)) =
              aws_log w @ CreateSecurityPolicyCommand (''accreda-'' @ slug t @ ''-encryption'')
                            ''encryption'' policy description # sent \<and>
            (\<forall>nm ty d tags. CreateCollectionCommand nm ty d tags \<in> set sent \<longrightarrow>
               nm = ''accreda-'' @ slug t \<and> ty = ''SEARCH'' \<and>
               map_of tags ''TenantId'' = Some (field body ''tenant_id'') \<and>
               map_of tags ''TenantSlug'' = Some (JStr (slug t))) \<and>
            (\<forall>nm ty pol d. CreateSecurityPolicyCommand nm ty pol d \<in> set sent \<longrightarrow>
               (nm = ''accreda-'' @ slug t @ ''-encryption'' \<and> ty = ''encryption'') \<or>
               (nm = ''accreda-'' @ slug t @ ''-network'' \<and> ty = ''network'')) \<and>
            (\<forall>nm ty pol d. CreateAccessPolicyCommand nm ty pol d \<in> set sent \<longrightarrow>
               nm = ''accreda-'' @ slug t @ ''-access'' \<and> ty = ''data'') \<and>
            (\<forall>names. BatchGetCollectionCommand names \<in> set sent \<longrightarrow>
               names = [''accreda-'' @ slug t]) \<and>
            (fst (processTenantMessage body w) = Inr () \<longrightarrow>
               (\<exists>d tags. CreateCollectionCommand (''accreda-'' @ slug t) ''SEARCH'' d tags
                           \<in> set sent)))"
proof (intro conjI allI impI)
  show "\<exists>cs. aws_log (snd (processTenantMessage body w)) =
                aws_log w @ encryptionPolicyCommand (''accreda-'' @ slug t) # cs \<and>
              set cs \<subseteq> provisioningCommands (field body ''tenant_id'') (slug t)"
    by (rule processTenantMessage_log[OF assms])
next
  fix other
  assume "\<not> nullish other" "field other ''tenant_id'' = field body ''tenant_id''"
  then show "processTenantMessage other w = processTenantMessage body w"
    using assms(1) by (simp add: processTenantMessage_def)
next
  let ?tid = "field body ''tenant_id''"
  let ?N = "''accreda-'' @ slug t"
  let ?A = "provisioningCommands ?tid (slug t)"
  let ?w' = "snd (processTenantMessage body w)"
  from processTenantMessage_log[OF assms]
  obtain sent where log: "aws_log ?w' = aws_log w @ encryptionPolicyCommand ?N # sent"
    and sub: "set sent \<subseteq> ?A"
    by blast
  have created: "\<exists>d tags. CreateCollectionCommand ?N ''SEARCH'' d tags \<in> set sent"
    if ret: "fst (processTenantMessage body w) = Inr ()"
  proof -
    from processTenantMessage_returns[OF assms ret]
    obtain p w2 where cc: "createCollection ?tid (slug t)
                             (w\<lparr>db_log := db_log w @ [Select ?tid]\<rparr>) = (Inr p, w2)"
      and same: "aws_log ?w' = aws_log w2"
      by blast
    from createCollection_returns[OF cc]
    obtain tx before after where
      "aws_log w2 = aws_log w @ before @
         createCollectionCommand (getCollectionName (slug t)) ?tid tx (slug t) # after"
      by auto
    with same log
    have "encryptionPolicyCommand ?N # sent =
          before @ createCollectionCommand (getCollectionName (slug t)) ?tid tx (slug t) # after"
      by simp
    then have "createCollectionCommand (getCollectionName (slug t)) ?tid tx (slug t)
               \<in> set (encryptionPolicyCommand ?N # sent)"
      by simp
    then have "createCollectionCommand (getCollectionName (slug t)) ?tid tx (slug t) \<in> set sent"
      by (simp add: createCollectionCommand_def encryptionPolicyCommand_def)
    then show ?thesis
      by (auto simp: createCollectionCommand_def getCollectionName_def)
  qed
  let ?policy = "JObj [(''Rules'', JArr [collectionRule ''collection'' ?N]),
                       (''AWSOwnedKey'', JBool True)]"
  let ?description = "''Encryption policy for tenant collection '' @ ?N"
  have first: "aws_log ?w' =
            aws_log w @ CreateSecurityPolicyCommand (''accreda-'' @ slug t @ ''-encryption'')
              ''encryption'' ?policy ?description # sent"
    using log by (simp add: encryptionPolicyCommand_def)
  have collections: "\<forall>nm ty d tags. CreateCollectionCommand nm ty d tags \<in> set sent \<longrightarrow>
             nm = ''accreda-'' @ slug t \<and> ty = ''SEARCH'' \<and>
             map_of tags ''TenantId'' = Some (field body ''tenant_id'') \<and>
             map_of tags ''TenantSlug'' = Some (JStr (slug t))"
  proof (intro allI impI)
    fix nm ty d tags
    assume "CreateCollectionCommand nm ty d tags \<in> set sent"
    with sub have "CreateCollectionCommand nm ty d tags \<in> ?A" by blast
    then show "nm = ''accreda-'' @ slug t \<and> ty = ''SEARCH'' \<and>
             map_of tags ''TenantId'' = Some (field body ''tenant_id'') \<and>
             map_of tags ''TenantSlug'' = Some (JStr (slug t))"
      by (rule provisioning_collection)
  qed
  have security: "\<forall>nm ty pol d. CreateSecurityPolicyCommand nm ty pol d \<in> set sent \<longrightarrow>
             (nm = ''accreda-'' @ slug t @ ''-encryption'' \<and> ty = ''encryption'') \<or>
             (nm = ''accreda-'' @ slug t @ ''-network'' \<and> ty = ''network'')"
  proof (intro allI impI)
    fix nm ty pol d
    assume "CreateSecurityPolicyCommand nm ty pol d \<in> set sent"
    with sub have "CreateSecurityPolicyCommand nm ty pol d \<in> ?A" by blast
    then show "(nm = ''accreda-'' @ slug t @ ''-encryption'' \<and> ty = ''encryption'') \<or>
          (nm = ''accreda-'' @ slug t @ ''-network'' \<and> ty = ''network'')"
      by (rule provisioning_security_policy)
  qed
  have access: "\<forall>nm ty pol d. CreateAccessPolicyCommand nm ty pol d \<in> set sent \<longrightarrow>
             nm = ''accreda-'' @ slug t @ ''-access'' \<and> ty = ''data''"
  proof (intro allI impI)
    fix nm ty pol d
    assume "CreateAccessPolicyCommand nm ty pol d \<in> set sent"
    with sub have "CreateAccessPolicyCommand nm ty pol d \<in> ?A" by blast
    then show "nm = ''accreda-'' @ slug t @ ''-access'' \<and> ty = ''data''"
      by (rule provisioning_access_policy)
  qed
  have queries: "\<forall>names. BatchGetCollectionCommand names \<in> set sent \<longrightarrow>
             names = [''accreda-'' @ slug t]"
  proof (intro allI impI)
    fix names
    assume "BatchGetCollectionCommand names \<in> set sent"
    with sub have "BatchGetCollectionCommand names \<in> ?A" by blast
    then show "names = [''accreda-'' @ slug t]"
      by (rule provisioning_status_query)
  qed
  have returned: "fst (processTenantMessage body w) = Inr () \<longrightarrow>
             (\<exists>d tags. CreateCollectionCommand (''accreda-'' @ slug t) ''SEARCH'' d tags
                         \<in> set sent)"
    using created by blast
  from first collections security access queries returned
  have "aws_log ?w' =
            aws_log w @ CreateSecurityPolicyCommand (''accreda-'' @ slug t @ ''-encryption'')
              ''encryption'' ?policy ?description # sent \<and>
          (\<forall>nm ty d tags. CreateCollectionCommand nm ty d tags \<in> set sent \<longrightarrow>
             nm = ''accreda-'' @ slug t \<and> ty = ''SEARCH'' \<and>
             map_of tags ''TenantId'' = Some (field body ''tenant_id'') \<and>
             map_of tags ''TenantSlug'' = Some (JStr (slug t))) \<and>
          (\<forall>nm ty pol d. CreateSecurityPolicyCommand nm ty pol d \<in> set sent \<longrightarrow>
             (nm = ''accreda-'' @ slug t @ ''-encryption'' \<and> ty = ''encryption'') \<or>
             (nm = ''accreda-'' @ slug t @ ''-network'' \<and> ty = ''network'')) \<and>
          (\<forall>nm ty pol d. CreateAccessPolicyCommand nm ty pol d \<in> set sent \<longrightarrow>
             nm = ''accreda-'' @ slug t @ ''-access'' \<and> ty = ''data'') \<and>
          (\<forall>names. BatchGetCollectionCommand names \<in> set sent \<longrightarrow>
             names = [''accreda-'' @ slug t]) \<and>
          (fst (processTenantMessage body w) = Inr () \<longrightarrow>
             (\<exists>d tags. CreateCollectionCommand (''accreda-'' @ slug t) ''SEARCH'' d tags
                         \<in> set sent))"
    by (intro conjI)
  then show "\<exists>policy description sent.
          aws_log ?w' =
            aws_log w @ CreateSecurityPolicyCommand (''accreda-'' @ slug t @ ''-encryption'')
                          ''encryption'' policy description # sent \<and>
          (\<forall>nm ty d tags. CreateCollectionCommand nm ty d tags \<in> set sent \<longrightarrow>
             nm = ''accreda-'' @ slug t \<and> ty = ''SEARCH'' \<and>
             map_of tags ''TenantId'' = Some (field body ''tenant_id'') \<and>
             map_of tags ''TenantSlug'' = Some (JStr (slug t))) \<and>
          (\<forall>nm ty pol d. CreateSecurityPolicyCommand nm ty pol d \<in> set sent \<longrightarrow>
             (nm = ''accreda-'' @ slug t @ ''-encryption'' \<and> ty = ''encryption'') \<or>
             (nm = ''accreda-'' @ slug t @ ''-network'' \<and> ty = ''network'')) \<and>
          (\<forall>nm ty pol d. CreateAccessPolicyCommand nm ty pol d \<in> set sent \<longrightarrow>
             nm = ''accreda-'' @ slug t @ ''-access'' \<and> ty = ''data'') \<and>
          (\<forall>names. BatchGetCollectionCommand names \<in> set sent \<longrightarrow>
             names = [''accreda-'' @ slug t]) \<and>
          (fst (processTenantMessage body w) = Inr () \<longrightarrow>
             (\<exists>d tags. CreateCollectionCommand (''accreda-'' @ slug t) ''SEARCH'' d tags
                         \<in> set sent))"
    by - (rule exI, rule exI, rule exI, assumption)
qed

text \<open>
  The event names the slug \<^verbatim>\<open>acme-corp\<close>, the stored row has the slug \<^verbatim>\<open>acme\<close>: the
  collection is \<^verbatim>\<open>accreda-acme\<close>.
\<close>

theorem collection_named_after_stored_slug_witness:
  "field valid_payload ''tenant_slug'' = JStr ''acme-corp'' \<and>
   slug (acme None (Some ''pending'')) = ''acme'' \<and>
   (\<exists>cs. aws_log (snd (processTenantMessage valid_payload
             (sample_world (table_with (acme None (Some ''pending''))) no_fault always_active))) =
           encryptionPolicyCommand ''accreda-acme'' # cs \<and>
         set cs \<subseteq> provisioningCommands (JStr sample_uuid) ''acme'') \<and>
   aws_log (snd (processTenantMessage valid_payload
      (sample_world (table_with (acme None (Some ''pending''))) no_fault always_active))) =
     [encryptionPolicyCommand ''accreda-acme'',
      networkPolicyCommand ''accreda-acme'',
      createCollectionCommand ''accreda-acme'' (JStr sample_uuid) sample_uuid ''acme'',
      dataAccessPolicyCommand ''accreda-acme'' sample_uuid,
      batchGetCollectionCommand ''accreda-acme''] \<and>
   aws_log (snd (processTenantMessage valid_payload
      (sample_world (table_with (acme None (Some ''pending''))) no_fault always_active))) ! 2 =
     CreateCollectionCommand ''accreda-acme'' ''SEARCH''
       (''OpenSearch collection for tenant acme ('' @ sample_uuid @
        '') - configured for Bedrock knowledge base'')
       [(''TenantId'', JStr sample_uuid),
        (''TenantSlug'', JStr ''acme''),
        (''Service'', JStr ''Accreda''),
        (''ManagedBy'', JStr ''tenant-opensearch-service''),
        (''BedrockCompatible'', JStr ''true'')] \<and>
   aws_log (snd (processTenantMessage valid_payload
      (sample_world (table_with (acme None (Some ''pending''))) no_fault always_active))) ! 4 =
     BatchGetCollectionCommand [''accreda-acme'']"
proof -
  let ?t = "acme None (Some ''pending'')"
  let ?w = "sample_world (table_with ?t) no_fault always_active"
  have fetch: "db_fault ?w (length (db_log ?w)) = None"
    by (simp add: sample_world_simps no_fault_def)
  have row: "tenants ?w (field valid_payload ''tenant_id'') = Some ?t"
    by (simp add: valid_payload_tenant_id sample_world_simps table_with_simps)
  have ok: "isValid (validateTenantForProvisioning (Some ?t))"
    by (rule acme_eligible) simp
  from collection_named_after_stored_slug[OF valid_payload_not_nullish fetch row ok]
  have "\<exists>cs. aws_log (snd (processTenantMessage valid_payload ?w)) =
            encryptionPolicyCommand ''accreda-acme'' # cs \<and>
          set cs \<subseteq> provisioningCommands (JStr sample_uuid) ''acme''"
    by (simp add: sample_world_simps acme_simps valid_payload_tenant_id)
  moreover have "field valid_payload ''tenant_slug'' = JStr ''acme-corp''"
    by (simp add: valid_payload_def payload_def)
  ultimately show ?thesis
    by (simp add: active_run acme_simps createCollectionCommand_def batchGetCollectionCommand_def)
qed

end
